theory Spec2Isabelle
  imports Complex_Main "HOL-Library.AList" "HOL-Library.Sublist"
begin

section \<open>Conventions\<close>

text \<open>
  The development embeds \<^verbatim>\<open>src/Server/connection_status.py\<close> and
  \<^verbatim>\<open>src/Server/connection_monitor.py\<close>.

  \<^item> A \<^verbatim>\<open>datetime\<close> is a point on the wall clock, measured in seconds as a real number;
    \<^verbatim>\<open>(a - b).total_seconds()\<close> is \<open>a - b\<close>. Python computes \<^verbatim>\<open>total_seconds()\<close> in
    double precision; the thresholds it is compared with are small integers, so the
    comparisons agree with the exact ones.
  \<^item> A leading underscore of a Python name is dropped (\<^verbatim>\<open>_component_last_activity\<close> is
    \<open>component_last_activity\<close>).
  \<^item> Logging is not modelled.
\<close>

type_synonym datetime = real

datatype py_error = TypeError | AttributeError | KeyError

section \<open>config.py: connection monitoring settings\<close>

record config =
  CONNECTION_CHECK_INTERVAL :: int
  CONNECTION_NOTIFICATION_COOLDOWN :: int
  TIMEOUT_WARNING :: int
  TIMEOUT_ERROR :: int
  TIMEOUT_CRITICAL :: int

definition default_config :: config where
  "default_config =
     \<lparr>CONNECTION_CHECK_INTERVAL = 60, CONNECTION_NOTIFICATION_COOLDOWN = 300,
      TIMEOUT_WARNING = 300, TIMEOUT_ERROR = 600, TIMEOUT_CRITICAL = 1800\<rparr>"

section \<open>connection_status.py\<close>

definition CONNECTION_STATE_ONLINE :: string where
  "CONNECTION_STATE_ONLINE = ''online''"

definition CONNECTION_STATE_WARNING :: string where
  "CONNECTION_STATE_WARNING = ''warning''"

definition CONNECTION_STATE_ERROR :: string where
  "CONNECTION_STATE_ERROR = ''error''"

definition CONNECTION_STATE_CRITICAL :: string where
  "CONNECTION_STATE_CRITICAL = ''critical''"

definition CONNECTION_STATE_UNKNOWN :: string where
  "CONNECTION_STATE_UNKNOWN = ''unknown''"

text \<open>\<^verbatim>\<open>int(x)\<close> on a float truncates towards zero.\<close>

definition py_int :: "real \<Rightarrow> int" where
  "py_int x = (if 0 \<le> x then \<lfloor>x\<rfloor> else \<lceil>x\<rceil>)"

text \<open>The message texts of the module; the f-strings carry \<^verbatim>\<open>int(time_since_last_activity)\<close>.\<close>

datatype status_message =
    Component_is_online
  | No_activity_recorded
  | Has_not_reported int
  | May_be_offline int
  | Is_offline int

record metadata =
  md_name :: string
  md_type :: string
  md_description :: string

definition component_metadata :: "string \<rightharpoonup> metadata" where
  "component_metadata = map_of
     [(''server'', \<lparr>md_name = ''FloraSeven Server'', md_type = ''server'',
                    md_description = ''Main server application''\<rparr>),
      (''mqtt_client'', \<lparr>md_name = ''MQTT Client'', md_type = ''service'',
                    md_description = ''MQTT messaging service''\<rparr>),
      (''plant_node_node1'', \<lparr>md_name = ''Plant Node 1'', md_type = ''hardware'',
                    md_description = ''ESP32 WROOM with sensors''\<rparr>),
      (''hub_node_hub1'', \<lparr>md_name = ''Hub Node 1'', md_type = ''hardware'',
                    md_description = ''ESP32-CAM with R4 Minima''\<rparr>),
      (''camera_hub1'', \<lparr>md_name = ''Camera (Hub 1)'', md_type = ''sensor'',
                    md_description = ''ESP32-CAM camera module''\<rparr>)]"

text \<open>
  The dictionaries the module returns and stores under \<^verbatim>\<open>_component_status\<close>:
  \<^verbatim>\<open>status\<close>, \<^verbatim>\<open>last_activity\<close>, \<^verbatim>\<open>time_since_last_activity\<close> (absent in some of them),
  \<^verbatim>\<open>message\<close> and the metadata keys (present when the id has metadata).
\<close>

record status_info =
  status :: string
  last_activity :: "datetime option"
  time_since_last_activity :: "real option"
  status_text :: status_message
  meta :: "metadata option"

text \<open>The module-level dictionaries \<^verbatim>\<open>_component_last_activity\<close> and \<^verbatim>\<open>_component_status\<close>.\<close>

record status_module =
  component_last_activity :: "string \<rightharpoonup> datetime"
  component_status :: "string \<rightharpoonup> status_info"

definition empty_status_module :: status_module where
  "empty_status_module = \<lparr>component_last_activity = Map.empty, component_status = Map.empty\<rparr>"

text \<open>
  \<^verbatim>\<open>record_component_activity(component_id)\<close>; \<open>now\<close> is the value \<^verbatim>\<open>datetime.now()\<close>
  returns inside it.
\<close>

definition record_component_activity :: "datetime \<Rightarrow> string \<Rightarrow> status_module \<Rightarrow> status_module" where
  "record_component_activity now component_id sm =
     sm\<lparr>component_last_activity := (component_last_activity sm)(component_id \<mapsto> now),
        component_status := (component_status sm)(component_id \<mapsto>
          \<lparr>status = CONNECTION_STATE_ONLINE, last_activity = Some now,
           time_since_last_activity = None, status_text = Component_is_online,
           meta = component_metadata component_id\<rparr>)\<rparr>"

text \<open>
  \<^verbatim>\<open>get_component_status(component_id)\<close>: the classifier. \<open>cfg\<close> is the \<^verbatim>\<open>config\<close>
  module, \<open>now\<close> the value of \<^verbatim>\<open>datetime.now()\<close>.
\<close>

definition get_component_status :: "config \<Rightarrow> datetime \<Rightarrow> status_module \<Rightarrow> string \<Rightarrow> status_info" where
  "get_component_status cfg now sm component_id =
     (case component_last_activity sm component_id of
        None \<Rightarrow>
          \<lparr>status = CONNECTION_STATE_UNKNOWN, last_activity = None,
           time_since_last_activity = None, status_text = No_activity_recorded,
           meta = None\<rparr>
      | Some la \<Rightarrow>
          (let since = now - la;
               (st, msg) =
                 (if since < real_of_int (TIMEOUT_WARNING cfg) then
                    (CONNECTION_STATE_ONLINE, Component_is_online)
                  else if since < real_of_int (TIMEOUT_ERROR cfg) then
                    (CONNECTION_STATE_WARNING, Has_not_reported (py_int since))
                  else if since < real_of_int (TIMEOUT_CRITICAL cfg) then
                    (CONNECTION_STATE_ERROR, May_be_offline (py_int since))
                  else
                    (CONNECTION_STATE_CRITICAL, Is_offline (py_int since)))
           in \<lparr>status = st, last_activity = Some la,
                time_since_last_activity = Some since, status_text = msg,
                meta = component_metadata component_id\<rparr>))"


section \<open>Python values\<close>

text \<open>
  The monitor reads dictionaries whose shape nothing in the code fixes, so their contents
  are dynamically typed values: \<^verbatim>\<open>None\<close>, a \<^verbatim>\<open>str\<close>, a number, or a \<^verbatim>\<open>dict\<close> with
  \<^verbatim>\<open>str\<close> keys (its items in order; a lookup takes the first item with the key).
\<close>

datatype pyval = PNone | PStr string | PNum real | PDict "(string \<times> pyval) list"

text \<open>\<^verbatim>\<open>d.get(k, default)\<close>: only a \<^verbatim>\<open>dict\<close> has the method.\<close>

definition py_get :: "pyval \<Rightarrow> string \<Rightarrow> pyval \<Rightarrow> py_error + pyval" where
  "py_get d k dflt =
     (case d of
        PDict kvs \<Rightarrow> Inr (case map_of kvs k of Some v \<Rightarrow> v | None \<Rightarrow> dflt)
      | _ \<Rightarrow> Inl AttributeError)"

text \<open>\<^verbatim>\<open>k in d\<close>: key membership for a \<^verbatim>\<open>dict\<close>, substring test for a \<^verbatim>\<open>str\<close>.\<close>

definition py_contains :: "string \<Rightarrow> pyval \<Rightarrow> py_error + bool" where
  "py_contains k d =
     (case d of
        PDict kvs \<Rightarrow> Inr (map_of kvs k \<noteq> None)
      | PStr s \<Rightarrow> Inr (sublist k s)
      | _ \<Rightarrow> Inl TypeError)"

text \<open>\<^verbatim>\<open>d[k]\<close> with a \<^verbatim>\<open>str\<close> key.\<close>

definition py_getitem :: "pyval \<Rightarrow> string \<Rightarrow> py_error + pyval" where
  "py_getitem d k =
     (case d of
        PDict kvs \<Rightarrow> (case map_of kvs k of Some v \<Rightarrow> Inr v | None \<Rightarrow> Inl KeyError)
      | _ \<Rightarrow> Inl TypeError)"

text \<open>
  \<^verbatim>\<open>a == b\<close>: values of different types are unequal, and two dictionaries are equal when
  they have the same keys with equal values, in whatever order.
\<close>

fun py_eq :: "pyval \<Rightarrow> pyval \<Rightarrow> bool" where
  "py_eq PNone PNone = True"
| "py_eq (PStr a) (PStr b) = (a = b)"
| "py_eq (PNum a) (PNum b) = (a = b)"
| "py_eq (PDict xs) (PDict ys) =
     (list_all (\<lambda>k. map_of xs k \<noteq> None) (map fst ys)
      \<and> list_all (\<lambda>(k, v). case map_of ys k of
                              None \<Rightarrow> False
                            | Some w \<Rightarrow> map_of xs k \<noteq> Some v \<or> py_eq v w) xs)"
| "py_eq _ _ = False"

section \<open>connection_monitor.py\<close>

definition COMPONENT_TYPE_HUB :: string where
  "COMPONENT_TYPE_HUB = ''hub''"

definition COMPONENT_TYPE_PLANT_NODE :: string where
  "COMPONENT_TYPE_PLANT_NODE = ''plant_node''"

definition COMPONENT_TYPE_CAMERA :: string where
  "COMPONENT_TYPE_CAMERA = ''camera''"

definition COMPONENT_TYPE_SENSOR :: string where
  "COMPONENT_TYPE_SENSOR = ''sensor''"

datatype monitor_state = MONITOR_STATE_ACTIVE | MONITOR_STATE_PAUSED | MONITOR_STATE_STOPPED

definition HISTORY_RETENTION_DAYS :: int where
  "HISTORY_RETENTION_DAYS = 7"

subsection \<open>Data\<close>

text \<open>
  An entry of a component's \<^verbatim>\<open>connection_history\<close>. The source stores the timestamp as
  \<^verbatim>\<open>now.isoformat()\<close> and reads it back with \<^verbatim>\<open>datetime.fromisoformat\<close>; the model keeps
  the \<^verbatim>\<open>datetime\<close>.
\<close>

record history_entry =
  h_state :: pyval
  h_timestamp :: datetime
  h_message :: pyval

record event =
  ev_component_id :: string
  ev_component_name :: string
  ev_component_type :: string
  ev_previous_state :: pyval
  ev_new_state :: pyval
  ev_timestamp :: datetime
  ev_message :: pyval

text \<open>
  The three notification texts: \<^verbatim>\<open>"{name} has reconnected"\<close>,
  \<^verbatim>\<open>"{name} connection is degraded: {message}"\<close>, \<^verbatim>\<open>"{name} has disconnected: {message}"\<close>.
\<close>

datatype notification_text =
    Has_reconnected string
  | Connection_is_degraded string pyval
  | Has_disconnected string pyval

record notification =
  n_component_id :: string
  n_severity :: string
  n_message :: notification_text

text \<open>An entry of \<^verbatim>\<open>_component_registry\<close>.\<close>

record component =
  component_id :: string
  component_type :: string
  name :: string
  critical :: bool
  expected_interval :: int
  parent :: "string option"
  last_seen :: "datetime option"
  state :: pyval
  message :: pyval
  consecutive_failures :: int
  uptime_percentage :: real
  connection_history :: "history_entry list"

text \<open>
  The \<^verbatim>\<open>ConnectionMonitor\<close> object and what it acts on.

  \<^item> \<open>component_registry\<close> is the dictionary in insertion order; \<open>AList.update\<close> assigns to
    a key as Python does (an existing key keeps its place, a new one goes last).
  \<^item> The three timeout attributes do not exist before \<^verbatim>\<open>_load_configuration\<close> sets them.
  \<^item> \<open>clock\<close> and \<open>reads\<close> stand for the wall clock: the \<open>n\<close>-th call of
    \<^verbatim>\<open>datetime.now()\<close> returns \<open>clock n\<close>.
  \<^item> \<open>fromisoformat v\<close> is \<^verbatim>\<open>datetime.fromisoformat(v)\<close>, \<open>None\<close> where it raises
    \<^verbatim>\<open>ValueError\<close> or \<^verbatim>\<open>TypeError\<close>.
  \<^item> \<open>sent_notifications\<close> lists the calls of \<^verbatim>\<open>_send_notification\<close>,
    \<open>snapshot_requests\<close> counts the calls of \<^verbatim>\<open>_store_status_snapshot\<close>.
  \<^item> The thread, the lock and the event callbacks (none is registered in the repository, and
    an exception of a callback is caught where it is called) are left out.
\<close>

record monitor =
  m_state :: monitor_state
  check_interval :: int
  component_registry :: "(string \<times> component) list"
  event_history :: "event list"
  last_notification_time :: "string \<rightharpoonup> datetime"
  notification_cooldown :: int
  timeout_warning :: "int option"
  timeout_error :: "int option"
  timeout_critical :: "int option"
  clock :: "nat \<Rightarrow> datetime"
  reads :: nat
  fromisoformat :: "pyval \<Rightarrow> datetime option"
  sent_notifications :: "notification list"
  snapshot_requests :: nat

text \<open>\<^verbatim>\<open>datetime.now()\<close>.\<close>

definition datetime_now :: "monitor \<Rightarrow> datetime \<times> monitor" where
  "datetime_now m = (clock m (reads m), m\<lparr>reads := Suc (reads m)\<rparr>)"

subsection \<open>Construction\<close>

definition load_configuration :: "config \<Rightarrow> monitor \<Rightarrow> monitor" where
  "load_configuration cfg m =
     m\<lparr>check_interval := CONNECTION_CHECK_INTERVAL cfg,
       notification_cooldown := CONNECTION_NOTIFICATION_COOLDOWN cfg,
       timeout_warning := Some (TIMEOUT_WARNING cfg),
       timeout_error := Some (TIMEOUT_ERROR cfg),
       timeout_critical := Some (TIMEOUT_CRITICAL cfg)\<rparr>"

definition register_component ::
  "string \<Rightarrow> string \<Rightarrow> string \<Rightarrow> bool \<Rightarrow> int \<Rightarrow> string option \<Rightarrow> monitor \<Rightarrow> monitor" where
  "register_component cid ctype display_name crit expected par m =
     m\<lparr>component_registry := AList.update cid
          \<lparr>component_id = cid, component_type = ctype, name = display_name,
           critical = crit, expected_interval = expected, parent = par,
           last_seen = None, state = PStr CONNECTION_STATE_UNKNOWN,
           message = PStr ''Not yet connected'', consecutive_failures = 0,
           uptime_percentage = 0, connection_history = []\<rparr>
          (component_registry m)\<rparr>"

definition initialize_registry :: "monitor \<Rightarrow> monitor" where
  "initialize_registry =
     register_component ''uv'' COMPONENT_TYPE_SENSOR ''UV Sensor'' False 60 (Some ''main_hub'')
     \<circ> register_component ''ph'' COMPONENT_TYPE_SENSOR ''pH Sensor'' False 60 (Some ''main_hub'')
     \<circ> register_component ''ec'' COMPONENT_TYPE_SENSOR ''EC Sensor'' False 60 (Some ''plant_node'')
     \<circ> register_component ''light'' COMPONENT_TYPE_SENSOR ''Light Sensor'' False 60
         (Some ''plant_node'')
     \<circ> register_component ''temperature'' COMPONENT_TYPE_SENSOR ''Temperature Sensor'' False 60
         (Some ''plant_node'')
     \<circ> register_component ''moisture'' COMPONENT_TYPE_SENSOR ''Moisture Sensor'' True 60
         (Some ''plant_node'')
     \<circ> register_component ''camera'' COMPONENT_TYPE_CAMERA ''Camera'' False 300 None
     \<circ> register_component ''plant_node'' COMPONENT_TYPE_PLANT_NODE ''Plant Node'' True 60 None
     \<circ> register_component ''main_hub'' COMPONENT_TYPE_HUB ''Main Hub'' True 60 None"

text \<open>
  \<^verbatim>\<open>ConnectionMonitor.__init__\<close>, given the \<^verbatim>\<open>config\<close> module and the environment (the
  clock and \<^verbatim>\<open>datetime.fromisoformat\<close>).
\<close>

definition ConnectionMonitor_init ::
  "config \<Rightarrow> (nat \<Rightarrow> datetime) \<Rightarrow> (pyval \<Rightarrow> datetime option) \<Rightarrow> monitor" where
  "ConnectionMonitor_init cfg clk parse =
     initialize_registry (load_configuration cfg
       \<lparr>m_state = MONITOR_STATE_STOPPED, check_interval = 60, component_registry = [],
        event_history = [], last_notification_time = Map.empty,
        notification_cooldown = 300, timeout_warning = None, timeout_error = None,
        timeout_critical = None, clock = clk, reads = 0, fromisoformat = parse,
        sent_notifications = [], snapshot_requests = 0\<rparr>)"

subsection \<open>Lifecycle\<close>

definition start :: "monitor \<Rightarrow> bool \<times> monitor" where
  "start m =
     (if m_state m \<noteq> MONITOR_STATE_STOPPED then (False, m)
      else (True, m\<lparr>m_state := MONITOR_STATE_ACTIVE\<rparr>))"

definition stop :: "monitor \<Rightarrow> bool \<times> monitor" where
  "stop m =
     (if m_state m = MONITOR_STATE_STOPPED then (False, m)
      else (True, m\<lparr>m_state := MONITOR_STATE_STOPPED\<rparr>))"

definition pause :: "monitor \<Rightarrow> bool \<times> monitor" where
  "pause m =
     (if m_state m \<noteq> MONITOR_STATE_ACTIVE then (False, m)
      else (True, m\<lparr>m_state := MONITOR_STATE_PAUSED\<rparr>))"

definition resume :: "monitor \<Rightarrow> bool \<times> monitor" where
  "resume m =
     (if m_state m \<noteq> MONITOR_STATE_PAUSED then (False, m)
      else (True, m\<lparr>m_state := MONITOR_STATE_ACTIVE\<rparr>))"

subsection \<open>The tick\<close>

text \<open>
  A method that can raise returns the exception, if any, together with the monitor as the
  method left it: Python mutates in place, so what was written before the exception stays.
\<close>

text \<open>
  \<^verbatim>\<open>_update_component_status(component_id, status_data)\<close>. \<^verbatim>\<open>status_data.get\<close> is its
  first use of \<open>status_data\<close> and raises \<^verbatim>\<open>AttributeError\<close> unless that is a \<^verbatim>\<open>dict\<close>.
\<close>

definition update_component_status :: "string \<Rightarrow> pyval \<Rightarrow> monitor \<Rightarrow> py_error option \<times> monitor" where
  "update_component_status cid status_data m =
     (case map_of (component_registry m) cid of
        None \<Rightarrow> (Some KeyError, m)
      | Some component \<Rightarrow>
          (case status_data of
             PDict kvs \<Rightarrow>
               (let st = (case map_of kvs ''state'' of
                            Some v \<Rightarrow> v | None \<Rightarrow> PStr CONNECTION_STATE_UNKNOWN);
                    c1 = component\<lparr>state := st\<rparr>;
                    c2 = (case map_of kvs ''message'' of
                            Some v \<Rightarrow> c1\<lparr>message := v\<rparr> | None \<Rightarrow> c1);
                    (c3, m1) =
                      (case map_of kvs ''last_connected'' of
                         None \<Rightarrow> (c2, m)
                       | Some v \<Rightarrow>
                           (case fromisoformat m v of
                              Some t \<Rightarrow> (c2\<lparr>last_seen := Some t\<rparr>, m)
                            | None \<Rightarrow>
                                (let (now, m') = datetime_now m
                                 in (c2\<lparr>last_seen := Some now\<rparr>, m'))));
                    c4 = (if st = PStr CONNECTION_STATE_ONLINE then
                            c3\<lparr>consecutive_failures := 0\<rparr>
                          else if st = PStr CONNECTION_STATE_WARNING
                                \<or> st = PStr CONNECTION_STATE_ERROR
                                \<or> st = PStr CONNECTION_STATE_CRITICAL then
                            c3\<lparr>consecutive_failures := consecutive_failures c3 + 1\<rparr>
                          else c3)
                in (None, m1\<lparr>component_registry :=
                                AList.update cid c4 (component_registry m1)\<rparr>))
           | _ \<Rightarrow> (Some AttributeError, m)))"

text \<open>
  \<^verbatim>\<open>_send_notification\<close>: the notification is logged; the timestamp handed to
  \<^verbatim>\<open>database.add_notification\<close> is one more reading of the clock, and an exception of the
  database call is caught.
\<close>

definition send_notification :: "string \<Rightarrow> string \<Rightarrow> notification_text \<Rightarrow> monitor \<Rightarrow> monitor" where
  "send_notification cid severity msg m =
     snd (datetime_now
       (m\<lparr>sent_notifications := sent_notifications m @
            [\<lparr>n_component_id = cid, n_severity = severity, n_message = msg\<rparr>]\<rparr>))"

text \<open>The \<^verbatim>\<open>if\<close>/\<^verbatim>\<open>elif\<close> chain of \<^verbatim>\<open>_check_notification_needed\<close> that chooses severity and text.\<close>

definition notification_for :: "component \<Rightarrow> pyval \<Rightarrow> pyval \<Rightarrow> (string \<times> notification_text) option" where
  "notification_for component previous_state new_state =
     (if new_state = PStr CONNECTION_STATE_ONLINE
         \<and> (previous_state = PStr CONNECTION_STATE_WARNING
            \<or> previous_state = PStr CONNECTION_STATE_ERROR
            \<or> previous_state = PStr CONNECTION_STATE_CRITICAL) then
        Some (''info'', Has_reconnected (name component))
      else if new_state = PStr CONNECTION_STATE_WARNING \<and> critical component then
        Some (''warning'', Connection_is_degraded (name component) (message component))
      else if new_state = PStr CONNECTION_STATE_ERROR
            \<or> new_state = PStr CONNECTION_STATE_CRITICAL then
        Some (if critical component then ''error'' else ''warning'',
              Has_disconnected (name component) (message component))
      else None)"

definition check_notification_needed ::
  "string \<Rightarrow> pyval \<Rightarrow> pyval \<Rightarrow> monitor \<Rightarrow> py_error option \<times> monitor" where
  "check_notification_needed cid previous_state new_state m =
     (case map_of (component_registry m) cid of
        None \<Rightarrow> (Some KeyError, m)
      | Some component \<Rightarrow>
          (let (now, m1) = datetime_now m
           in if (case last_notification_time m1 cid of
                    Some t \<Rightarrow> now - t < real_of_int (notification_cooldown m1)
                  | None \<Rightarrow> False)
              then (None, m1)
              else
                (case notification_for component previous_state new_state of
                   None \<Rightarrow> (None, m1)
                 | Some (severity, msg) \<Rightarrow>
                     (let m2 = send_notification cid severity msg m1
                      in (None, m2\<lparr>last_notification_time :=
                                      (last_notification_time m2)(cid \<mapsto> now)\<rparr>)))))"

definition handle_state_change ::
  "string \<Rightarrow> pyval \<Rightarrow> pyval \<Rightarrow> monitor \<Rightarrow> py_error option \<times> monitor" where
  "handle_state_change cid previous_state new_state m =
     (case map_of (component_registry m) cid of
        None \<Rightarrow> (Some KeyError, m)
      | Some component \<Rightarrow>
          (let (now, m1) = datetime_now m;
               ev = \<lparr>ev_component_id = cid, ev_component_name = name component,
                     ev_component_type = component_type component,
                     ev_previous_state = previous_state, ev_new_state = new_state,
                     ev_timestamp = now, ev_message = message component\<rparr>;
               m2 = m1\<lparr>event_history := event_history m1 @ [ev]\<rparr>;
               component' = component\<lparr>connection_history := connection_history component @
                  [\<lparr>h_state = new_state, h_timestamp = now, h_message = message component\<rparr>]\<rparr>;
               m3 = m2\<lparr>component_registry :=
                         AList.update cid component' (component_registry m2)\<rparr>
           in check_notification_needed cid previous_state new_state m3))"

text \<open>
  The lookup of a component's \<open>status_data\<close> in \<^verbatim>\<open>_check_all_components\<close>: under
  \<^verbatim>\<open>current_status["sensors"]\<close> for a sensor, under \<^verbatim>\<open>current_status\<close> otherwise;
  \<open>Inr None\<close> when the id is not there.
\<close>

definition lookup_status :: "pyval \<Rightarrow> string \<Rightarrow> string \<Rightarrow> py_error + pyval option" where
  "lookup_status current_status ctype cid =
     (if ctype = COMPONENT_TYPE_SENSOR then
        (case py_get current_status ''sensors'' (PDict []) of
           Inl e \<Rightarrow> Inl e
         | Inr sensors \<Rightarrow>
             (case py_contains cid sensors of
                Inl e \<Rightarrow> Inl e
              | Inr False \<Rightarrow> Inr None
              | Inr True \<Rightarrow>
                  (case py_getitem current_status ''sensors'' of
                     Inl e \<Rightarrow> Inl e
                   | Inr s \<Rightarrow>
                       (case py_getitem s cid of
                          Inl e \<Rightarrow> Inl e
                        | Inr status_data \<Rightarrow> Inr (Some status_data)))))
      else
        (case py_contains cid current_status of
           Inl e \<Rightarrow> Inl e
         | Inr False \<Rightarrow> Inr None
         | Inr True \<Rightarrow>
             (case py_getitem current_status cid of
                Inl e \<Rightarrow> Inl e
              | Inr status_data \<Rightarrow> Inr (Some status_data))))"

text \<open>
  The body of the \<^verbatim>\<open>for\<close> loop of \<^verbatim>\<open>_check_all_components\<close> for one key of the
  registry; the boolean tells whether the body set \<^verbatim>\<open>status_changed\<close>.
\<close>

definition check_component :: "pyval \<Rightarrow> string \<Rightarrow> monitor \<Rightarrow> py_error option \<times> bool \<times> monitor" where
  "check_component current_status cid m =
     (case map_of (component_registry m) cid of
        None \<Rightarrow> (None, False, m)
      | Some component \<Rightarrow>
          (let previous_state = state component
           in case lookup_status current_status (component_type component) cid of
                Inl e \<Rightarrow> (Some e, False, m)
              | Inr found \<Rightarrow>
                  (case (case found of
                           None \<Rightarrow> (None, m)
                         | Some status_data \<Rightarrow> update_component_status cid status_data m) of
                     (Some e, m1) \<Rightarrow> (Some e, False, m1)
                   | (None, m1) \<Rightarrow>
                       (case map_of (component_registry m1) cid of
                          None \<Rightarrow> (None, False, m1)
                        | Some component' \<Rightarrow>
                            if \<not> py_eq (state component') previous_state then
                              (let (err, m2) = handle_state_change cid previous_state
                                                 (state component') m1
                               in (err, True, m2))
                            else (None, False, m1)))))"

text \<open>The \<^verbatim>\<open>for\<close> loop over the keys of the registry: an exception ends it.\<close>

fun check_loop :: "pyval \<Rightarrow> string list \<Rightarrow> bool \<Rightarrow> monitor \<Rightarrow> py_error option \<times> bool \<times> monitor" where
  "check_loop current_status [] status_changed m = (None, status_changed, m)"
| "check_loop current_status (cid # rest) status_changed m =
     (case check_component current_status cid m of
        (Some e, ch, m1) \<Rightarrow> (Some e, status_changed \<or> ch, m1)
      | (None, ch, m1) \<Rightarrow> check_loop current_status rest (status_changed \<or> ch) m1)"

text \<open>
  The loop of \<^verbatim>\<open>_calculate_metrics\<close> over the sorted in-window history, with its two
  accumulators \<^verbatim>\<open>(connected_time, total_time)\<close>: an entry lasts until the next one, the
  last one until \<open>now\<close>.
\<close>

fun uptime_loop :: "datetime \<Rightarrow> history_entry list \<Rightarrow> real \<times> real \<Rightarrow> real \<times> real" where
  "uptime_loop now [] acc = acc"
| "uptime_loop now (h # rest) (connected_time, total_time) =
     (let end_time = (case rest of [] \<Rightarrow> now | h' # _ \<Rightarrow> h_timestamp h');
          duration = end_time - h_timestamp h
      in uptime_loop now rest
           (if h_state h = PStr CONNECTION_STATE_ONLINE then connected_time + duration
            else connected_time,
            total_time + duration))"

text \<open>
  The body of the loop of \<^verbatim>\<open>_calculate_metrics\<close> for one component. The source sorts by
  the ISO text of the timestamps, which orders them as the timestamps themselves;
  \<^verbatim>\<open>list.sort\<close> is stable, as \<open>sort_key\<close> is. The percentage is computed in floating point
  by the source and in the reals here; the division is reached only with a positive
  \<^verbatim>\<open>total_time\<close>.
\<close>

definition component_metrics :: "datetime \<Rightarrow> component \<Rightarrow> component" where
  "component_metrics now component =
     (if connection_history component = [] then component
      else
        (let history = filter (\<lambda>h. h_timestamp h > now - 24 * 3600)
                         (connection_history component);
             c1 = (if history \<noteq> [] then
                     (let (connected_time, total_time) =
                            uptime_loop now (sort_key h_timestamp history) (0, 0)
                      in if total_time > 0 then
                           component\<lparr>uptime_percentage := (connected_time / total_time) * 100\<rparr>
                         else component)
                   else component)
         in if length (connection_history c1) > 100 then
              c1\<lparr>connection_history :=
                   drop (length (connection_history c1) - 100) (connection_history c1)\<rparr>
            else c1))"

definition calculate_metrics :: "monitor \<Rightarrow> monitor" where
  "calculate_metrics m =
     (let (now, m1) = datetime_now m
      in m1\<lparr>component_registry :=
              map (\<lambda>(cid, component). (cid, component_metrics now component))
                (component_registry m1)\<rparr>)"

definition clean_history :: "monitor \<Rightarrow> monitor" where
  "clean_history m =
     (let (now, m1) = datetime_now m;
          cutoff = now - real_of_int HISTORY_RETENTION_DAYS * 86400
      in m1\<lparr>event_history := filter (\<lambda>e. ev_timestamp e > cutoff) (event_history m1)\<rparr>)"

text \<open>
  \<^verbatim>\<open>_store_status_snapshot\<close>: it reads the clock and hands the snapshot to the database; an
  exception of the database is caught.
\<close>

definition store_status_snapshot :: "monitor \<Rightarrow> monitor" where
  "store_status_snapshot m =
     (let (now, m1) = datetime_now m
      in m1\<lparr>snapshot_requests := Suc (snapshot_requests m1)\<rparr>)"

text \<open>
  \<^verbatim>\<open>_check_all_components\<close>. \<^verbatim>\<open>connection_status.py\<close> defines no
  \<^verbatim>\<open>get_connection_status\<close>; \<open>current_status\<close> is what the call of that name returns.
\<close>

definition check_all_components :: "pyval \<Rightarrow> monitor \<Rightarrow> py_error option \<times> monitor" where
  "check_all_components current_status m =
     (let (now, m0) = datetime_now m
      in case check_loop current_status (map fst (component_registry m0)) False m0 of
           (Some e, status_changed, m1) \<Rightarrow> (Some e, m1)
         | (None, status_changed, m1) \<Rightarrow>
             (let m2 = clean_history (calculate_metrics m1)
              in (None, if status_changed then store_status_snapshot m2 else m2)))"

text \<open>
  One iteration of the \<^verbatim>\<open>while\<close> loop of \<^verbatim>\<open>_monitoring_loop\<close>: the \<^verbatim>\<open>try\<close> catches
  whatever the tick raises.
\<close>

definition monitoring_loop_iteration :: "pyval \<Rightarrow> monitor \<Rightarrow> monitor" where
  "monitoring_loop_iteration current_status m =
     (if m_state m = MONITOR_STATE_ACTIVE then snd (check_all_components current_status m)
      else m)"

text \<open>
  \<^verbatim>\<open>_monitoring_loop\<close>, run for as many iterations as there are elements in the list: the
  \<open>i\<close>-th element is what \<^verbatim>\<open>get_connection_status()\<close> returns in the \<open>i\<close>-th iteration.
\<close>

fun monitoring_loop :: "pyval list \<Rightarrow> monitor \<Rightarrow> monitor" where
  "monitoring_loop [] m = m"
| "monitoring_loop (current_status # rest) m =
     (if m_state m \<noteq> MONITOR_STATE_STOPPED then
        monitoring_loop rest (monitoring_loop_iteration current_status m)
      else m)"

subsection \<open>Recording activity\<close>

text \<open>
  A call \<^verbatim>\<open>record_component_activity(*args)\<close>: the function has one positional parameter,
  so any other number of arguments raises \<^verbatim>\<open>TypeError\<close> before the body runs.
\<close>

definition call_record_component_activity ::
  "datetime \<Rightarrow> string list \<Rightarrow> status_module \<Rightarrow> py_error + status_module" where
  "call_record_component_activity now args sm =
     (case args of
        [cid] \<Rightarrow> Inr (record_component_activity now cid sm)
      | _ \<Rightarrow> Inl TypeError)"

definition record_activity ::
  "monitor \<Rightarrow> datetime \<Rightarrow> string \<Rightarrow> status_module \<Rightarrow> py_error + status_module" where
  "record_activity m now cid sm =
     (case map_of (component_registry m) cid of
        None \<Rightarrow> Inr sm
      | Some component \<Rightarrow>
          if component_type component = COMPONENT_TYPE_SENSOR then
            call_record_component_activity now [''sensors'', cid] sm
          else call_record_component_activity now [cid] sm)"

subsection \<open>Health summary\<close>

record health_summary =
  hs_timestamp :: datetime
  overall_health :: string
  total_components :: nat
  connected_components :: nat
  warning_components :: nat
  error_components :: nat
  critical_components_count :: nat
  unknown_components :: nat
  critical_components :: nat
  critical_disconnected :: nat
  average_uptime :: real

definition get_system_health_summary :: "datetime \<Rightarrow> monitor \<Rightarrow> health_summary" where
  "get_system_health_summary now m =
     (let cs = map snd (component_registry m);
          total = length cs;
          connected = length (filter (\<lambda>c. state c = PStr CONNECTION_STATE_ONLINE) cs);
          warning = length (filter (\<lambda>c. state c = PStr CONNECTION_STATE_WARNING) cs);
          errors = length (filter (\<lambda>c. state c = PStr CONNECTION_STATE_ERROR) cs);
          critical_count = length (filter (\<lambda>c. state c = PStr CONNECTION_STATE_CRITICAL) cs);
          unknown = length (filter (\<lambda>c. state c = PStr CONNECTION_STATE_UNKNOWN) cs);
          critical_cs = filter critical cs;
          disconnected = length (filter (\<lambda>c. state c = PStr CONNECTION_STATE_ERROR
                                     \<or> state c = PStr CONNECTION_STATE_CRITICAL) critical_cs);
          health = (if disconnected > 0 \<or> critical_count > 0 then ''critical''
                    else if errors > 0 then ''error''
                    else if warning > 0 then ''warning''
                    else if unknown = total then ''unknown''
                    else ''healthy'');
          uptime_values = filter (\<lambda>u. u > 0) (map uptime_percentage cs)
      in \<lparr>hs_timestamp = now, overall_health = health, total_components = total,
          connected_components = connected, warning_components = warning,
          error_components = errors, critical_components_count = critical_count,
          unknown_components = unknown, critical_components = length critical_cs,
          critical_disconnected = disconnected,
          average_uptime = (if uptime_values \<noteq> [] then
                              sum_list uptime_values / real (length uptime_values)
                            else 0)\<rparr>)"


section \<open>Notions used to state the properties\<close>

text \<open>A field of the registry entry of a component, and its cached state in particular.\<close>

definition field_of :: "(component \<Rightarrow> 'a) \<Rightarrow> string \<Rightarrow> monitor \<Rightarrow> 'a option" where
  "field_of f cid m = map_option f (map_of (component_registry m) cid)"

definition state_of :: "string \<Rightarrow> monitor \<Rightarrow> pyval option" where
  "state_of cid m = map_option state (map_of (component_registry m) cid)"

text \<open>The notifications sent so far about one component.\<close>

definition notifications_about :: "string \<Rightarrow> monitor \<Rightarrow> notification list" where
  "notifications_about cid m = filter (\<lambda>n. n_component_id n = cid) (sent_notifications m)"


text \<open>
  The invariant behind the range of the uptime figure: the percentage of a component lies
  between 0 and 100, and none of its history entries is stamped later than \<open>t\<close>; for a
  monitor, \<open>t\<close> is the next reading of its clock.
\<close>

definition uptime_ok :: "datetime \<Rightarrow> component \<Rightarrow> bool" where
  "uptime_ok t c \<longleftrightarrow>
     0 \<le> uptime_percentage c \<and> uptime_percentage c \<le> 100
     \<and> (\<forall>h\<in>set (connection_history c). h_timestamp h \<le> t)"

definition uptime_inv :: "monitor \<Rightarrow> bool" where
  "uptime_inv m \<longleftrightarrow>
     (\<forall>cid\<in>set (map fst (component_registry m)).
        case map_of (component_registry m) cid of
          None \<Rightarrow> True
        | Some c \<Rightarrow> uptime_ok (clock m (reads m)) c)"

section \<open>Concrete monitors and reports\<close>

text \<open>
  The monitor as constructed with the default configuration, on a clock that advances by
  one second per reading (from 0, or from 1000) and with no parsable timestamps.
\<close>

definition initial_monitor :: monitor where
  "initial_monitor = ConnectionMonitor_init default_config (\<lambda>n. real n) (\<lambda>v. None)"

definition late_monitor :: monitor where
  "late_monitor = ConnectionMonitor_init default_config (\<lambda>n. 1000 + real n) (\<lambda>v. None)"

text \<open>
  What \<^verbatim>\<open>connection_status.get_component_status\<close> reports for a component last seen 1000
  seconds ago, as a dictionary keyed by component id.
\<close>

definition classifier_report :: pyval where
  "classifier_report =
     PDict [(''main_hub'',
             PDict [(''status'', PStr ''error''),
                    (''last_activity'', PStr ''2024-01-01T00:00:00''),
                    (''time_since_last_activity'', PNum 1000),
                    (''message'',
                     PStr ''Component may be offline (last activity: 1000 seconds ago)'')])]"

text \<open>Thresholds in the wrong order.\<close>

definition unordered_config :: config where
  "unordered_config =
     \<lparr>CONNECTION_CHECK_INTERVAL = 60, CONNECTION_NOTIFICATION_COOLDOWN = 300,
      TIMEOUT_WARNING = 600, TIMEOUT_ERROR = 300, TIMEOUT_CRITICAL = 100\<rparr>"

text \<open>Dictionaries a tick may be handed as the current status.\<close>

definition hub_warning :: pyval where
  "hub_warning = PDict [(''main_hub'', PDict [(''state'', PStr ''warning'')])]"

definition hub_online :: pyval where
  "hub_online = PDict [(''main_hub'', PDict [(''state'', PStr ''online'')])]"

definition hub_malformed :: pyval where
  "hub_malformed =
     PDict [(''main_hub'', PNone), (''plant_node'', PDict [(''state'', PStr ''online'')])]"

definition plant_online :: pyval where
  "plant_online = PDict [(''plant_node'', PDict [(''state'', PStr ''online'')])]"

text \<open>Monitors reached from the initial one.\<close>

definition two_critical_down :: monitor where
  "two_critical_down = snd (check_all_components
     (PDict [(''main_hub'', PDict [(''state'', PStr ''critical'')]),
             (''plant_node'', PDict [(''state'', PStr ''error'')])]) initial_monitor)"

definition warned_monitor :: monitor where
  "warned_monitor = monitoring_loop [hub_warning] (snd (start initial_monitor))"

definition hub_in_cooldown :: monitor where
  "hub_in_cooldown =
     initial_monitor\<lparr>last_notification_time := [''main_hub'' \<mapsto> 0]\<rparr>"

text \<open>A clock that advances by 10000 seconds per reading at first and then jumps ahead.\<close>

definition jump_clock :: "nat \<Rightarrow> datetime" where
  "jump_clock n = (if n < 6 then 10000 * real n else 1000000 + real n)"

definition days_later :: monitor where
  "days_later = snd (check_all_components hub_online
     (ConnectionMonitor_init default_config jump_clock (\<lambda>v. None)))"

text \<open>
  A wall clock that reads 0 seven times, then 3600 three times, and is then set back to
  1800; and the monitor after it was started and ran two ticks on that clock: the first
  finds \<^verbatim>\<open>main_hub\<close> online, the second finds it in warning.
\<close>

definition stepping_back_clock :: "nat \<Rightarrow> datetime" where
  "stepping_back_clock n = (if n < 7 then 0 else if n < 10 then 3600 else 1800)"

definition after_step_back :: monitor where
  "after_step_back = monitoring_loop [hub_online, hub_warning]
     (snd (start (ConnectionMonitor_init default_config stepping_back_clock (\<lambda>v. None))))"

section \<open>Facts about the model\<close>

lemmas connection_state_defs =
  CONNECTION_STATE_ONLINE_def CONNECTION_STATE_WARNING_def CONNECTION_STATE_ERROR_def
  CONNECTION_STATE_CRITICAL_def CONNECTION_STATE_UNKNOWN_def

lemmas component_type_defs =
  COMPONENT_TYPE_HUB_def COMPONENT_TYPE_PLANT_NODE_def COMPONENT_TYPE_CAMERA_def
  COMPONENT_TYPE_SENSOR_def

lemmas init_defs = ConnectionMonitor_init_def initialize_registry_def load_configuration_def
  register_component_def component_type_defs connection_state_defs

lemmas tick_defs = check_all_components_def check_component_def lookup_status_def
  update_component_status_def handle_state_change_def check_notification_needed_def
  notification_for_def send_notification_def datetime_now_def calculate_metrics_def
  component_metrics_def clean_history_def store_status_snapshot_def py_get_def py_contains_def
  py_getitem_def HISTORY_RETENTION_DAYS_def

subsection \<open>What each step of the tick leaves alone\<close>

lemma datetime_now_simps [simp]:
  "fst (datetime_now m) = clock m (reads m)"
  "snd (datetime_now m) = m\<lparr>reads := Suc (reads m)\<rparr>"
  by (simp_all add: datetime_now_def)

lemma send_notification_fields [simp]:
  "component_registry (send_notification cid sev msg m) = component_registry m"
  "sent_notifications (send_notification cid sev msg m) =
     sent_notifications m @ [\<lparr>n_component_id = cid, n_severity = sev, n_message = msg\<rparr>]"
  "last_notification_time (send_notification cid sev msg m) = last_notification_time m"
  "clock (send_notification cid sev msg m) = clock m"
  "reads (send_notification cid sev msg m) = Suc (reads m)"
  "notification_cooldown (send_notification cid sev msg m) = notification_cooldown m"
  "m_state (send_notification cid sev msg m) = m_state m"
  "fromisoformat (send_notification cid sev msg m) = fromisoformat m"
  by (simp_all add: send_notification_def)

text \<open>What \<open>check_notification_needed\<close> leaves alone.\<close>

lemma check_notification_needed_frame:
  assumes "check_notification_needed cid p n m = (r, m')"
  shows "component_registry m' = component_registry m"
    and "clock m' = clock m" and "reads m \<le> reads m'"
    and "m_state m' = m_state m" and "fromisoformat m' = fromisoformat m"
    and "notification_cooldown m' = notification_cooldown m"
    and "b \<noteq> cid \<Longrightarrow> notifications_about b m' = notifications_about b m"
    and "b \<noteq> cid \<Longrightarrow> last_notification_time m' b = last_notification_time m b"
    and "length (notifications_about cid m') \<le> Suc (length (notifications_about cid m))"
  using assms
  by (auto simp: check_notification_needed_def notifications_about_def split_def Let_def
           split: option.splits if_splits)


lemma update_component_status_frame:
  assumes "update_component_status cid sd m = (r, m')"
  shows "clock m' = clock m" and "reads m \<le> reads m'"
    and "m_state m' = m_state m" and "fromisoformat m' = fromisoformat m"
    and "notification_cooldown m' = notification_cooldown m"
    and "sent_notifications m' = sent_notifications m"
    and "last_notification_time m' = last_notification_time m"
    and "b \<noteq> cid \<Longrightarrow> map_of (component_registry m') b = map_of (component_registry m) b"
    and "distinct (map fst (component_registry m)) \<Longrightarrow> distinct (map fst (component_registry m'))"
  using assms
  by (auto simp: update_component_status_def split_def Let_def update_conv' distinct_update
           split: option.splits pyval.splits)

lemma update_component_status_fields:
  assumes "update_component_status cid sd m = (r, m')"
  shows "field_of uptime_percentage b m' = field_of uptime_percentage b m"
    and "field_of connection_history b m' = field_of connection_history b m"
    and "field_of component_type b m' = field_of component_type b m"
    and "field_of critical b m' = field_of critical b m"
  using assms
  by (auto simp: update_component_status_def split_def Let_def update_conv' field_of_def
           split: option.splits pyval.splits)


lemma handle_state_change_unfold:
  assumes "handle_state_change cid p n m = (r, m')"
  shows "m' = m \<or> (\<exists>c. map_of (component_registry m) cid = Some c \<and>
     check_notification_needed cid p n
       (m\<lparr>reads := Suc (reads m),
          event_history := event_history m @
            [\<lparr>ev_component_id = cid, ev_component_name = name c,
              ev_component_type = component_type c, ev_previous_state = p, ev_new_state = n,
              ev_timestamp = clock m (reads m), ev_message = message c\<rparr>],
          component_registry := AList.update cid
            (c\<lparr>connection_history := connection_history c @
                [\<lparr>h_state = n, h_timestamp = clock m (reads m), h_message = message c\<rparr>]\<rparr>)
            (component_registry m)\<rparr>) = (r, m'))"
  using assms
  by (auto simp: handle_state_change_def split_def Let_def split: option.splits)

lemma handle_state_change_frame:
  assumes "handle_state_change cid p n m = (r, m')"
  shows "clock m' = clock m" and "reads m \<le> reads m'"
    and "m_state m' = m_state m" and "fromisoformat m' = fromisoformat m"
    and "notification_cooldown m' = notification_cooldown m"
    and "b \<noteq> cid \<Longrightarrow> notifications_about b m' = notifications_about b m"
    and "b \<noteq> cid \<Longrightarrow> last_notification_time m' b = last_notification_time m b"
    and "length (notifications_about cid m') \<le> Suc (length (notifications_about cid m))"
    and "b \<noteq> cid \<Longrightarrow> map_of (component_registry m') b = map_of (component_registry m) b"
    and "distinct (map fst (component_registry m)) \<Longrightarrow> distinct (map fst (component_registry m'))"
proof -
  note u = handle_state_change_unfold [OF assms]
  show "clock m' = clock m"
    using u by (auto dest!: check_notification_needed_frame(2))
  show "reads m \<le> reads m'"
    using u by (auto dest!: check_notification_needed_frame(3))
  show "m_state m' = m_state m"
    using u by (auto dest!: check_notification_needed_frame(4))
  show "fromisoformat m' = fromisoformat m"
    using u by (auto dest!: check_notification_needed_frame(5))
  show "notification_cooldown m' = notification_cooldown m"
    using u by (auto dest!: check_notification_needed_frame(6))
  show "b \<noteq> cid \<Longrightarrow> notifications_about b m' = notifications_about b m"
    using u by (auto simp: notifications_about_def
                  dest!: check_notification_needed_frame(7) [where b = b])
  show "b \<noteq> cid \<Longrightarrow> last_notification_time m' b = last_notification_time m b"
    using u by (auto dest!: check_notification_needed_frame(8) [where b = b])
  show "length (notifications_about cid m') \<le> Suc (length (notifications_about cid m))"
    using u by (auto simp: notifications_about_def dest!: check_notification_needed_frame(9))
  show "b \<noteq> cid \<Longrightarrow> map_of (component_registry m') b = map_of (component_registry m) b"
    using u by (auto simp: update_conv' dest!: check_notification_needed_frame(1))
  show "distinct (map fst (component_registry m)) \<Longrightarrow> distinct (map fst (component_registry m'))"
    using u by (auto simp: distinct_update dest!: check_notification_needed_frame(1))
qed

lemma handle_state_change_fields:
  assumes "handle_state_change cid p n m = (r, m')"
  shows "field_of uptime_percentage b m' = field_of uptime_percentage b m"
    and "field_of state b m' = field_of state b m"
    and "field_of component_type b m' = field_of component_type b m"
    and "field_of critical b m' = field_of critical b m"
  using assms
  by (auto simp: handle_state_change_def split_def Let_def update_conv' field_of_def
           split: option.splits dest!: check_notification_needed_frame(1))


lemma py_eq_refl [simp]: "py_eq v v"
proof (induction v)
  case (PDict xs)
  have "map_of xs k \<noteq> None" if "k \<in> fst ` set xs" for k
    using that by (simp add: map_of_eq_None_iff)
  moreover have "case map_of xs k of None \<Rightarrow> False
                 | Some w \<Rightarrow> map_of xs k \<noteq> Some v \<or> py_eq v w"
    if "(k, v) \<in> set xs" for k v
  proof (cases "map_of xs k")
    case None
    with that show ?thesis by (metis map_of_eq_None_iff fst_conv image_eqI)
  next
    case (Some w)
    show ?thesis
    proof (cases "w = v")
      case True
      with Some PDict.IH that show ?thesis by (fastforce simp: snds.simps)
    next
      case False
      with Some show ?thesis by simp
    qed
  qed
  ultimately show ?case by (auto simp: list_all_iff)
qed simp_all

lemma update_component_status_keeps:
  assumes "update_component_status cid sd m = (r, m')"
    and "map_of (component_registry m) cid = Some c"
  shows "\<exists>c'. map_of (component_registry m') cid = Some c'"
  using assms
  by (auto simp: update_component_status_def split_def Let_def update_conv'
           split: option.splits pyval.splits)

text \<open>The three ways through the loop body.\<close>

lemma check_component_cases:
  assumes "check_component cur cid m = (r, ch, m')"
  shows "(m' = m \<and> \<not> ch)
       \<or> (\<exists>sd r1. update_component_status cid sd m = (r1, m') \<and> \<not> ch)
       \<or> (\<exists>sd m1 c c1. map_of (component_registry m) cid = Some c
             \<and> update_component_status cid sd m = (None, m1)
             \<and> map_of (component_registry m1) cid = Some c1
             \<and> state c1 \<noteq> state c \<and> ch
             \<and> handle_state_change cid (state c) (state c1) m1 = (r, m'))"
proof (cases "map_of (component_registry m) cid")
  case None
  with assms show ?thesis by (simp add: check_component_def)
next
  case (Some c)
  show ?thesis
  proof (cases "lookup_status cur (component_type c) cid")
    case (Inl e)
    with assms Some show ?thesis by (simp add: check_component_def)
  next
    case (Inr found)
    show ?thesis
    proof (cases found)
      case None
      with assms Some Inr show ?thesis by (simp add: check_component_def)
    next
      case (Some sd)
      obtain r1 m1 where u: "update_component_status cid sd m = (r1, m1)"
        by (cases "update_component_status cid sd m")
      show ?thesis
      proof (cases r1)
        case (Some e)
        with u have "m1 = m"
          by (auto simp: update_component_status_def split_def Let_def
                split: option.splits pyval.splits)
        with assms \<open>map_of (component_registry m) cid = Some c\<close> Inr \<open>found = Some sd\<close> u Some
        show ?thesis by (simp add: check_component_def)
      next
        case None
        from update_component_status_keeps [OF u \<open>map_of (component_registry m) cid = Some c\<close>]
        obtain c1 where c1: "map_of (component_registry m1) cid = Some c1" by blast
        show ?thesis
        proof (cases "py_eq (state c1) (state c)")
          case True
          with assms \<open>map_of (component_registry m) cid = Some c\<close> Inr \<open>found = Some sd\<close> u None c1
          have "m' = m1" "\<not> ch" by (simp_all add: check_component_def)
          then show ?thesis using u by blast
        next
          case False
          with assms \<open>map_of (component_registry m) cid = Some c\<close> Inr \<open>found = Some sd\<close> u None c1
          have "handle_state_change cid (state c) (state c1) m1 = (r, m')" "ch"
            by (auto simp: check_component_def split_def Let_def)
          moreover from False have "state c1 \<noteq> state c"
            using py_eq_refl [of "state c"] by auto
          ultimately show ?thesis
            using c1 u None \<open>map_of (component_registry m) cid = Some c\<close> by blast
        qed
      qed
    qed
  qed
qed


lemma check_component_frame:
  assumes "check_component cur cid m = (r, ch, m')"
  shows "clock m' = clock m" and "reads m \<le> reads m'"
    and "m_state m' = m_state m" and "fromisoformat m' = fromisoformat m"
    and "notification_cooldown m' = notification_cooldown m"
    and "b \<noteq> cid \<Longrightarrow> map_of (component_registry m') b = map_of (component_registry m) b"
    and "b \<noteq> cid \<Longrightarrow> notifications_about b m' = notifications_about b m"
    and "b \<noteq> cid \<Longrightarrow> last_notification_time m' b = last_notification_time m b"
    and "distinct (map fst (component_registry m)) \<Longrightarrow> distinct (map fst (component_registry m'))"
proof -
  note c = check_component_cases [OF assms]
  show "clock m' = clock m"
    using c by (auto dest!: update_component_status_frame(1) handle_state_change_frame(1))
  show "reads m \<le> reads m'"
    using c by (auto dest!: update_component_status_frame(2) handle_state_change_frame(2))
  show "m_state m' = m_state m"
    using c by (auto dest!: update_component_status_frame(3) handle_state_change_frame(3))
  show "fromisoformat m' = fromisoformat m"
    using c by (auto dest!: update_component_status_frame(4) handle_state_change_frame(4))
  show "notification_cooldown m' = notification_cooldown m"
    using c by (auto dest!: update_component_status_frame(5) handle_state_change_frame(5))
  show "b \<noteq> cid \<Longrightarrow> map_of (component_registry m') b = map_of (component_registry m) b"
    using c by (auto dest!: update_component_status_frame(8) [where b = b]
                            handle_state_change_frame(9) [where b = b])
  show "b \<noteq> cid \<Longrightarrow> notifications_about b m' = notifications_about b m"
    using c by (auto simp: notifications_about_def dest!: update_component_status_frame(6)
                            handle_state_change_frame(6) [where b = b])
  show "b \<noteq> cid \<Longrightarrow> last_notification_time m' b = last_notification_time m b"
    using c by (auto dest!: update_component_status_frame(7)
                            handle_state_change_frame(7) [where b = b])
  show "distinct (map fst (component_registry m)) \<Longrightarrow> distinct (map fst (component_registry m'))"
    using c by (auto dest!: update_component_status_frame(9) handle_state_change_frame(10))
qed

lemma check_component_fields:
  assumes "check_component cur cid m = (r, ch, m')"
  shows "field_of uptime_percentage b m' = field_of uptime_percentage b m"
    and "field_of component_type b m' = field_of component_type b m"
    and "field_of critical b m' = field_of critical b m"
proof -
  note c = check_component_cases [OF assms]
  show "field_of uptime_percentage b m' = field_of uptime_percentage b m"
    using c by (auto dest!: update_component_status_fields(1) [where b = b]
                            handle_state_change_fields(1) [where b = b])
  show "field_of component_type b m' = field_of component_type b m"
    using c by (auto dest!: update_component_status_fields(3) [where b = b]
                            handle_state_change_fields(3) [where b = b])
  show "field_of critical b m' = field_of critical b m"
    using c by (auto dest!: update_component_status_fields(4) [where b = b]
                            handle_state_change_fields(4) [where b = b])
qed

text \<open>The loop body notifies about its component only when it saw the state change.\<close>

lemma check_component_steady:
  assumes "check_component cur cid m = (r, ch, m')"
    and "state_of cid m' = state_of cid m"
  shows "sent_notifications m' = sent_notifications m"
    and "last_notification_time m' = last_notification_time m"
proof -
  have no3: "\<not> (\<exists>sd m1 c c1. map_of (component_registry m) cid = Some c
             \<and> update_component_status cid sd m = (None, m1)
             \<and> map_of (component_registry m1) cid = Some c1
             \<and> state c1 \<noteq> state c \<and> ch
             \<and> handle_state_change cid (state c) (state c1) m1 = (r, m'))"
  proof
    assume "\<exists>sd m1 c c1. map_of (component_registry m) cid = Some c
             \<and> update_component_status cid sd m = (None, m1)
             \<and> map_of (component_registry m1) cid = Some c1
             \<and> state c1 \<noteq> state c \<and> ch
             \<and> handle_state_change cid (state c) (state c1) m1 = (r, m')"
    then obtain sd m1 c c1 where h: "map_of (component_registry m) cid = Some c"
      "map_of (component_registry m1) cid = Some c1" "state c1 \<noteq> state c"
      "handle_state_change cid (state c) (state c1) m1 = (r, m')" by blast
    from handle_state_change_fields(2) [OF h(4), of cid] h(1,2)
    have "state_of cid m' = Some (state c1)" "state_of cid m = Some (state c)"
      by (simp_all add: state_of_def field_of_def)
    with assms(2) h(3) show False by simp
  qed
  with check_component_cases [OF assms(1)]
  have c: "m' = m \<or> (\<exists>sd r1. update_component_status cid sd m = (r1, m'))" by blast
  show "sent_notifications m' = sent_notifications m"
    using c by (auto dest!: update_component_status_frame(6))
  show "last_notification_time m' = last_notification_time m"
    using c by (auto dest!: update_component_status_frame(7))
qed

lemma check_component_at_most_one:
  assumes "check_component cur cid m = (r, ch, m')"
  shows "length (notifications_about cid m') \<le> Suc (length (notifications_about cid m))"
  using check_component_cases [OF assms]
  by (auto simp: notifications_about_def dest!: update_component_status_frame(6)
        handle_state_change_frame(8))


lemma check_loop_frame:
  assumes "check_loop cur ks ch m = (r, ch', m')"
  shows "clock m' = clock m \<and> reads m \<le> reads m' \<and> m_state m' = m_state m
       \<and> (distinct (map fst (component_registry m)) \<longrightarrow>
            distinct (map fst (component_registry m')))
       \<and> field_of uptime_percentage b m' = field_of uptime_percentage b m
       \<and> (b \<notin> set ks \<longrightarrow>
            map_of (component_registry m') b = map_of (component_registry m) b
          \<and> notifications_about b m' = notifications_about b m
          \<and> last_notification_time m' b = last_notification_time m b)"
  using assms
proof (induction ks arbitrary: ch m)
  case Nil
  then show ?case by simp
next
  case (Cons k ks)
  obtain r1 c1 m1 where s: "check_component cur k m = (r1, c1, m1)"
    by (cases "check_component cur k m")
  note f = check_component_frame [OF s] check_component_fields(1) [OF s]
  show ?case
  proof (cases r1)
    case None
    with Cons.prems s have "check_loop cur ks (ch \<or> c1) m1 = (r, ch', m')" by simp
    from Cons.IH [OF this] f show ?thesis by auto
  next
    case (Some e)
    with Cons.prems s have "m' = m1" by simp
    with f show ?thesis by auto
  qed
qed

lemma check_loop_notifies_on_change:
  assumes "check_loop cur ks ch m = (r, ch', m')" and "distinct ks"
  shows "(state_of cid m' = state_of cid m \<longrightarrow>
            notifications_about cid m' = notifications_about cid m)
       \<and> length (notifications_about cid m') \<le> Suc (length (notifications_about cid m))"
  using assms
proof (induction ks arbitrary: ch m r ch')
  case Nil
  then show ?case by simp
next
  case (Cons k ks)
  obtain r1 c1 m1 where s: "check_component cur k m = (r1, c1, m1)"
    by (cases "check_component cur k m")
  obtain r2 c2 where rest: "check_loop cur (if r1 = None then ks else []) (ch \<or> c1) m1 = (r2, c2, m')"
    using Cons.prems(1) s by (cases r1) auto
  show ?case
  proof (cases "k = cid")
    case True
    with Cons.prems(2) have "cid \<notin> set (if r1 = None then ks else [])" by auto
    with check_loop_frame [OF rest, of cid]
    have same: "state_of cid m' = state_of cid m1"
      "notifications_about cid m' = notifications_about cid m1"
      by (auto simp: state_of_def)
    from check_component_steady(1) [OF s [unfolded True]]
    have "state_of cid m1 = state_of cid m \<Longrightarrow>
            notifications_about cid m1 = notifications_about cid m"
      by (simp add: notifications_about_def)
    with same check_component_at_most_one [OF s [unfolded True]] show ?thesis by simp
  next
    case False
    with check_component_frame(6,7) [OF s, of cid]
    have same: "state_of cid m1 = state_of cid m"
      "notifications_about cid m1 = notifications_about cid m"
      by (simp_all add: state_of_def)
    show ?thesis
    proof (cases r1)
      case None
      with rest Cons.IH [of "ch \<or> c1" m1] Cons.prems(2) same show ?thesis by simp
    next
      case (Some e)
      with rest same show ?thesis by simp
    qed
  qed
qed

lemma component_metrics_fields [simp]:
  "state (component_metrics now c) = state c"
  "component_type (component_metrics now c) = component_type c"
  "critical (component_metrics now c) = critical c"
  by (simp_all add: component_metrics_def Let_def split_def)

lemma calculate_metrics_frame:
  "state_of cid (calculate_metrics m) = state_of cid m"
  "sent_notifications (calculate_metrics m) = sent_notifications m"
  "last_notification_time (calculate_metrics m) = last_notification_time m"
  "map fst (component_registry (calculate_metrics m)) = map fst (component_registry m)"
  "clock (calculate_metrics m) = clock m"
  "reads (calculate_metrics m) = Suc (reads m)"
  "m_state (calculate_metrics m) = m_state m"
  by (simp_all add: calculate_metrics_def datetime_now_def state_of_def map_of_map
        option.map_comp comp_def split_beta)

lemma clean_history_frame [simp]:
  "component_registry (clean_history m) = component_registry m"
  "sent_notifications (clean_history m) = sent_notifications m"
  "last_notification_time (clean_history m) = last_notification_time m"
  "clock (clean_history m) = clock m"
  "reads (clean_history m) = Suc (reads m)"
  "m_state (clean_history m) = m_state m"
  by (simp_all add: clean_history_def split_def Let_def)

lemma store_status_snapshot_frame [simp]:
  "component_registry (store_status_snapshot m) = component_registry m"
  "sent_notifications (store_status_snapshot m) = sent_notifications m"
  "last_notification_time (store_status_snapshot m) = last_notification_time m"
  "clock (store_status_snapshot m) = clock m"
  "reads (store_status_snapshot m) = Suc (reads m)"
  "m_state (store_status_snapshot m) = m_state m"
  by (simp_all add: store_status_snapshot_def split_def Let_def)

text \<open>What a tick does after its loop touches neither states nor notifications.\<close>

lemma check_all_components_cases:
  obtains r ch m1 where
    "check_loop cur (map fst (component_registry m)) False (m\<lparr>reads := Suc (reads m)\<rparr>)
       = (r, ch, m1)"
    and "fst (check_all_components cur m) = r"
    and "state_of cid (snd (check_all_components cur m)) = state_of cid m1"
    and "sent_notifications (snd (check_all_components cur m)) = sent_notifications m1"
    and "distinct (map fst (component_registry m1)) \<Longrightarrow>
         distinct (map fst (component_registry (snd (check_all_components cur m))))"
    and "m_state (snd (check_all_components cur m)) = m_state m1"
proof -
  obtain r ch m1 where l:
    "check_loop cur (map fst (component_registry m)) False (m\<lparr>reads := Suc (reads m)\<rparr>)
       = (r, ch, m1)"
    by (cases "check_loop cur (map fst (component_registry m)) False
                 (m\<lparr>reads := Suc (reads m)\<rparr>)")
  show thesis
  proof (rule that [OF l])
    show "fst (check_all_components cur m) = r"
      using l by (cases r) (simp_all add: check_all_components_def split_def Let_def)
    show "state_of cid (snd (check_all_components cur m)) = state_of cid m1"
      using l calculate_metrics_frame(1) [of cid m1]
      by (cases r) (simp_all add: check_all_components_def split_def Let_def state_of_def)
    show "sent_notifications (snd (check_all_components cur m)) = sent_notifications m1"
      using l
      by (cases r) (simp_all add: check_all_components_def split_def Let_def
                      calculate_metrics_frame)
    show "distinct (map fst (component_registry (snd (check_all_components cur m))))"
      if "distinct (map fst (component_registry m1))"
      using l that
      by (cases r) (simp_all add: check_all_components_def split_def Let_def
                      calculate_metrics_frame)
    show "m_state (snd (check_all_components cur m)) = m_state m1"
      using l
      by (cases r) (simp_all add: check_all_components_def split_def Let_def
                      calculate_metrics_frame)
  qed
qed

lemma iteration_notifies_on_change:
  assumes "distinct (map fst (component_registry m))"
  shows "distinct (map fst (component_registry (monitoring_loop_iteration cur m)))"
    and "state_of cid (monitoring_loop_iteration cur m) = state_of cid m \<Longrightarrow>
         notifications_about cid (monitoring_loop_iteration cur m) = notifications_about cid m"
    and "length (notifications_about cid (monitoring_loop_iteration cur m))
           \<le> Suc (length (notifications_about cid m))"
proof -
  obtain r ch m1 where l:
    "check_loop cur (map fst (component_registry m)) False (m\<lparr>reads := Suc (reads m)\<rparr>)
       = (r, ch, m1)"
    and st: "state_of cid (snd (check_all_components cur m)) = state_of cid m1"
    and sn: "sent_notifications (snd (check_all_components cur m)) = sent_notifications m1"
    and ds: "distinct (map fst (component_registry m1)) \<Longrightarrow>
         distinct (map fst (component_registry (snd (check_all_components cur m))))"
    by (rule check_all_components_cases [of cur m cid]) blast
  from check_loop_frame [OF l, of cid] assms
  have d1: "distinct (map fst (component_registry m1))" by simp
  from check_loop_notifies_on_change [OF l assms, of cid]
  have n: "state_of cid m1 = state_of cid m \<longrightarrow>
             notifications_about cid m1 = notifications_about cid m"
    "length (notifications_about cid m1) \<le> Suc (length (notifications_about cid m))"
    by (simp_all add: state_of_def notifications_about_def)
  have nb: "notifications_about cid (snd (check_all_components cur m))
              = notifications_about cid m1"
    using sn by (simp add: notifications_about_def)
  show "distinct (map fst (component_registry (monitoring_loop_iteration cur m)))"
    using ds [OF d1] assms by (simp add: monitoring_loop_iteration_def)
  show "notifications_about cid (monitoring_loop_iteration cur m) = notifications_about cid m"
    if "state_of cid (monitoring_loop_iteration cur m) = state_of cid m"
    using that n(1) st nb by (simp add: monitoring_loop_iteration_def split: if_splits)
  show "length (notifications_about cid (monitoring_loop_iteration cur m))
           \<le> Suc (length (notifications_about cid m))"
    using n(2) nb by (simp add: monitoring_loop_iteration_def)
qed

subsection \<open>The uptime figure\<close>

lemma uptime_inv_iff:
  "uptime_inv m \<longleftrightarrow>
     (\<forall>cid c. map_of (component_registry m) cid = Some c \<longrightarrow> uptime_ok (clock m (reads m)) c)"
proof
  assume i: "uptime_inv m"
  show "\<forall>cid c. map_of (component_registry m) cid = Some c \<longrightarrow> uptime_ok (clock m (reads m)) c"
  proof (intro allI impI)
    fix cid c assume s: "map_of (component_registry m) cid = Some c"
    then have "cid \<in> set (map fst (component_registry m))"
      by (metis map_of_eq_None_iff option.distinct(1) set_map)
    with i s show "uptime_ok (clock m (reads m)) c"
      by (auto simp: uptime_inv_def)
  qed
next
  assume "\<forall>cid c. map_of (component_registry m) cid = Some c \<longrightarrow> uptime_ok (clock m (reads m)) c"
  then show "uptime_inv m"
    by (auto simp: uptime_inv_def split: option.splits)
qed

lemma uptime_ok_later: "uptime_ok t c \<Longrightarrow> t \<le> t' \<Longrightarrow> uptime_ok t' c"
  by (auto simp: uptime_ok_def)

lemma uptime_loop_bounds:
  assumes "sorted (map h_timestamp hs)" and "\<forall>h\<in>set hs. h_timestamp h \<le> now"
    and "0 \<le> c" and "c \<le> t"
  shows "0 \<le> fst (uptime_loop now hs (c, t))
       \<and> fst (uptime_loop now hs (c, t)) \<le> snd (uptime_loop now hs (c, t))"
  using assms
proof (induction hs arbitrary: c t)
  case Nil
  then show ?case by simp
next
  case (Cons h rest)
  define d where "d = (case rest of [] \<Rightarrow> now | h' # _ \<Rightarrow> h_timestamp h') - h_timestamp h"
  have d: "0 \<le> d"
    using Cons.prems(1,2) by (cases rest) (simp_all add: d_def)
  have s: "sorted (map h_timestamp rest)" "\<forall>h\<in>set rest. h_timestamp h \<le> now"
    using Cons.prems(1,2) by simp_all
  show ?case
  proof (cases "h_state h = PStr CONNECTION_STATE_ONLINE")
    case True
    then have "uptime_loop now (h # rest) (c, t) = uptime_loop now rest (c + d, t + d)"
      by (simp add: d_def Let_def)
    moreover have "0 \<le> c + d" "c + d \<le> t + d" using d Cons.prems(3,4) by simp_all
    ultimately show ?thesis using Cons.IH [OF s] by simp
  next
    case False
    then have "uptime_loop now (h # rest) (c, t) = uptime_loop now rest (c, t + d)"
      by (simp add: d_def Let_def)
    moreover have "c \<le> t + d" using d Cons.prems(4) by simp
    ultimately show ?thesis using Cons.IH [OF s Cons.prems(3)] by simp
  qed
qed

lemma percentage_bounds:
  fixes c t :: real
  assumes "0 \<le> c" and "c \<le> t" and "0 < t"
  shows "0 \<le> c / t * 100" and "c / t * 100 \<le> 100"
proof -
  show "c / t * 100 \<le> 100" using assms by (simp add: divide_le_eq)
  show "0 \<le> c / t * 100" using assms by simp
qed

lemma component_metrics_uptime_ok:
  assumes "uptime_ok now c"
  shows "uptime_ok now (component_metrics now c)"
proof -
  let ?hist = "filter (\<lambda>h. h_timestamp h > now - 24 * 3600) (connection_history c)"
  have le: "\<forall>h\<in>set (sort_key h_timestamp ?hist). h_timestamp h \<le> now"
    using assms by (auto simp: uptime_ok_def)
  have srt: "sorted (map h_timestamp (sort_key h_timestamp ?hist))"
    by (rule sorted_sort_key)
  obtain conn tot where ul: "uptime_loop now (sort_key h_timestamp ?hist) (0, 0) = (conn, tot)"
    by (cases "uptime_loop now (sort_key h_timestamp ?hist) (0, 0)")
  from uptime_loop_bounds [OF srt le, of 0 0] ul have b: "0 \<le> conn" "conn \<le> tot" by simp_all
  have drop: "\<And>n h. h \<in> set (drop n (connection_history c)) \<Longrightarrow> h_timestamp h \<le> now"
    using assms by (auto simp: uptime_ok_def dest: in_set_dropD)
  show ?thesis
    using assms ul b percentage_bounds [of conn tot] drop
    by (auto simp: component_metrics_def Let_def uptime_ok_def)
qed

lemma component_metrics_keeps_uptime:
  assumes "filter (\<lambda>h. h_timestamp h > now - 24 * 3600) (connection_history c) = []"
  shows "uptime_percentage (component_metrics now c) = uptime_percentage c"
  using assms by (simp add: component_metrics_def Let_def)


lemma uptime_inv_step:
  assumes "mono (clock m)" and "uptime_inv m" and "clock m' = clock m"
    and "reads m \<le> reads m'"
    and "\<And>b c'. map_of (component_registry m') b = Some c' \<Longrightarrow>
           \<exists>c. map_of (component_registry m) b = Some c
             \<and> uptime_percentage c' = uptime_percentage c
             \<and> (\<forall>h\<in>set (connection_history c').
                   h \<in> set (connection_history c) \<or> h_timestamp h \<le> clock m (reads m'))"
  shows "uptime_inv m'"
  unfolding uptime_inv_iff
proof (intro allI impI)
  fix b c' assume "map_of (component_registry m') b = Some c'"
  from assms(5) [OF this] obtain c where c: "map_of (component_registry m) b = Some c"
    "uptime_percentage c' = uptime_percentage c"
    "\<forall>h\<in>set (connection_history c').
        h \<in> set (connection_history c) \<or> h_timestamp h \<le> clock m (reads m')"
    by blast
  from assms(2) c(1) have ok: "uptime_ok (clock m (reads m)) c"
    by (simp add: uptime_inv_iff)
  have le: "clock m (reads m) \<le> clock m (reads m')"
    using assms(1,4) by (simp add: monoD)
  show "uptime_ok (clock m' (reads m')) c'"
    using ok c(2,3) le assms(3) by (fastforce simp: uptime_ok_def)
qed

lemma update_component_status_inv:
  assumes "update_component_status cid sd m = (r, m')"
    and "mono (clock m)" and "uptime_inv m"
  shows "uptime_inv m'"
proof (rule uptime_inv_step [OF assms(2,3) update_component_status_frame(1,2) [OF assms(1)]])
  fix b c' assume s: "map_of (component_registry m') b = Some c'"
  from update_component_status_fields(1,2) [OF assms(1), of b] s
  show "\<exists>c. map_of (component_registry m) b = Some c
          \<and> uptime_percentage c' = uptime_percentage c
          \<and> (\<forall>h\<in>set (connection_history c').
                h \<in> set (connection_history c) \<or> h_timestamp h \<le> clock m (reads m'))"
    by (cases "map_of (component_registry m) b") (auto simp: field_of_def)
qed

lemma handle_state_change_inv:
  assumes "handle_state_change cid p n m = (r, m')"
    and "mono (clock m)" and "uptime_inv m"
  shows "uptime_inv m'"
proof (rule uptime_inv_step [OF assms(2,3) handle_state_change_frame(1,2) [OF assms(1)]])
  fix b c' assume s: "map_of (component_registry m') b = Some c'"
  have le: "clock m (reads m) \<le> clock m (reads m')"
    using assms(2) handle_state_change_frame(2) [OF assms(1)] by (simp add: monoD)
  from handle_state_change_unfold [OF assms(1)] s le
  show "\<exists>c. map_of (component_registry m) b = Some c
          \<and> uptime_percentage c' = uptime_percentage c
          \<and> (\<forall>h\<in>set (connection_history c').
                h \<in> set (connection_history c) \<or> h_timestamp h \<le> clock m (reads m'))"
    by (auto simp: update_conv' split: if_splits dest!: check_notification_needed_frame(1))
qed

lemma check_component_inv:
  assumes "check_component cur cid m = (r, ch, m')"
    and "mono (clock m)" and "uptime_inv m"
  shows "uptime_inv m'"
  using check_component_cases [OF assms(1)]
proof (elim disjE exE conjE)
  assume "m' = m"
  with assms(3) show ?thesis by simp
next
  fix sd r1 assume "update_component_status cid sd m = (r1, m')"
  from update_component_status_inv [OF this assms(2,3)] show ?thesis .
next
  fix sd m1 c c1
  assume u: "update_component_status cid sd m = (None, m1)"
    and h: "handle_state_change cid (state c) (state c1) m1 = (r, m')"
  have "mono (clock m1)"
    using update_component_status_frame(1) [OF u] assms(2) by simp
  from handle_state_change_inv [OF h this update_component_status_inv [OF u assms(2,3)]]
  show ?thesis .
qed

lemma check_loop_inv:
  assumes "check_loop cur ks ch m = (r, ch', m')"
    and "mono (clock m)" and "uptime_inv m"
  shows "uptime_inv m'"
  using assms
proof (induction ks arbitrary: ch m r ch')
  case Nil
  then show ?case by simp
next
  case (Cons k ks)
  obtain r1 c1 m1 where s: "check_component cur k m = (r1, c1, m1)"
    by (cases "check_component cur k m")
  note i1 = check_component_inv [OF s Cons.prems(2,3)]
  have mono1: "mono (clock m1)"
    using check_component_frame(1) [OF s] Cons.prems(2) by simp
  show ?case
  proof (cases r1)
    case None
    with Cons.prems(1) s have "check_loop cur ks (ch \<or> c1) m1 = (r, ch', m')" by simp
    from Cons.IH [OF this mono1 i1] show ?thesis .
  next
    case (Some e)
    with Cons.prems(1) s i1 show ?thesis by simp
  qed
qed

lemma reads_inv:
  assumes "mono (clock m)" and "uptime_inv m"
  shows "uptime_inv (m\<lparr>reads := Suc (reads m)\<rparr>)"
  by (rule uptime_inv_step [OF assms]) auto

lemma calculate_metrics_inv:
  assumes "mono (clock m)" and "uptime_inv m"
  shows "uptime_inv (calculate_metrics m)"
  unfolding uptime_inv_iff
proof (intro allI impI)
  fix b c' assume "map_of (component_registry (calculate_metrics m)) b = Some c'"
  then obtain c where c: "map_of (component_registry m) b = Some c"
    "c' = component_metrics (clock m (reads m)) c"
    by (auto simp: calculate_metrics_def datetime_now_def map_of_map)
  from assms(2) c(1) have "uptime_ok (clock m (reads m)) c" by (simp add: uptime_inv_iff)
  then have "uptime_ok (clock m (reads m)) c'"
    unfolding c(2) by (rule component_metrics_uptime_ok)
  moreover have "clock m (reads m) \<le> clock m (Suc (reads m))"
    using assms(1) by (simp add: monoD)
  ultimately show "uptime_ok (clock (calculate_metrics m) (reads (calculate_metrics m))) c'"
    by (simp add: calculate_metrics_frame uptime_ok_later)
qed

lemma clean_history_inv:
  assumes "mono (clock m)" and "uptime_inv m"
  shows "uptime_inv (clean_history m)"
  by (rule uptime_inv_step [OF assms]) auto

lemma store_status_snapshot_inv:
  assumes "mono (clock m)" and "uptime_inv m"
  shows "uptime_inv (store_status_snapshot m)"
  by (rule uptime_inv_step [OF assms]) auto

lemma check_all_components_inv:
  assumes "mono (clock m)" and "uptime_inv m"
  shows "uptime_inv (snd (check_all_components cur m))"
proof -
  let ?m0 = "m\<lparr>reads := Suc (reads m)\<rparr>"
  obtain r ch m1 where l: "check_loop cur (map fst (component_registry m)) False ?m0 = (r, ch, m1)"
    by (cases "check_loop cur (map fst (component_registry m)) False ?m0")
  have mono0: "mono (clock ?m0)" using assms(1) by simp
  have i1: "uptime_inv m1" by (rule check_loop_inv [OF l mono0 reads_inv [OF assms]])
  have mono1: "mono (clock m1)" using check_loop_frame [OF l] assms(1) by simp
  have i2: "uptime_inv (calculate_metrics m1)" by (rule calculate_metrics_inv [OF mono1 i1])
  have mono2: "mono (clock (calculate_metrics m1))"
    using mono1 by (simp add: calculate_metrics_frame)
  have i3: "uptime_inv (clean_history (calculate_metrics m1))"
    by (rule clean_history_inv [OF mono2 i2])
  have mono3: "mono (clock (clean_history (calculate_metrics m1)))" using mono2 by simp
  show ?thesis
    using l i1 i3 store_status_snapshot_inv [OF mono3 i3]
    by (cases r) (simp_all add: check_all_components_def datetime_now_def Let_def)
qed

lemma monitoring_loop_iteration_inv:
  assumes "mono (clock m)" and "uptime_inv m"
  shows "uptime_inv (monitoring_loop_iteration cur m)"
    and "clock (monitoring_loop_iteration cur m) = clock m"
proof -
  show "uptime_inv (monitoring_loop_iteration cur m)"
    using assms check_all_components_inv [OF assms]
    by (simp add: monitoring_loop_iteration_def)
  obtain r ch m1 where l:
    "check_loop cur (map fst (component_registry m)) False (m\<lparr>reads := Suc (reads m)\<rparr>)
       = (r, ch, m1)"
    by (cases "check_loop cur (map fst (component_registry m)) False
                 (m\<lparr>reads := Suc (reads m)\<rparr>)")
  from check_loop_frame [OF l] have "clock m1 = clock m" by simp
  with l show "clock (monitoring_loop_iteration cur m) = clock m"
    by (cases r) (simp_all add: monitoring_loop_iteration_def check_all_components_def
                    datetime_now_def Let_def calculate_metrics_frame)
qed

lemma monitoring_loop_inv:
  assumes "mono (clock m)" and "uptime_inv m"
  shows "uptime_inv (monitoring_loop curs m)"
  using assms
proof (induction curs arbitrary: m)
  case Nil
  then show ?case by simp
next
  case (Cons cur rest)
  from monitoring_loop_iteration_inv [OF Cons.prems, of cur] Cons.IH Cons.prems
  show ?case by simp
qed

lemma init_inv: "uptime_inv (ConnectionMonitor_init cfg clk parse)"
  by (simp add: uptime_inv_def uptime_ok_def init_defs)

lemma lifecycle_inv:
  "uptime_inv m \<Longrightarrow> uptime_inv (snd (start m))"
  "uptime_inv m \<Longrightarrow> uptime_inv (snd (stop m))"
  "uptime_inv m \<Longrightarrow> uptime_inv (snd (pause m))"
  "uptime_inv m \<Longrightarrow> uptime_inv (snd (resume m))"
  by (simp_all add: uptime_inv_iff start_def stop_def pause_def resume_def)


subsection \<open>Lists and the loop\<close>

lemma filter_nonempty_iff: "0 < length (filter P xs) \<longleftrightarrow> (\<exists>x\<in>set xs. P x)"
  by (simp add: filter_empty_conv)

lemma filter_all_iff: "length (filter P xs) = length xs \<longleftrightarrow> (\<forall>x\<in>set xs. P x)"
proof
  assume eq: "length (filter P xs) = length xs"
  show "\<forall>x\<in>set xs. P x"
  proof (rule ccontr)
    assume "\<not> (\<forall>x\<in>set xs. P x)"
    then obtain x where x: "x \<in> set xs" "\<not> P x" by blast
    have "length (filter P xs) < length xs"
      using x by (rule length_filter_less [of x xs P])
    with eq show False by simp
  qed
next
  assume "\<forall>x\<in>set xs. P x"
  then have "filter P xs = xs" by (simp add: filter_id_conv)
  then show "length (filter P xs) = length xs" by simp
qed

lemma check_loop_append:
  "check_loop cur (xs @ ys) ch m =
     (case check_loop cur xs ch m of
        (Some e, ch', m') \<Rightarrow> (Some e, ch', m')
      | (None, ch', m') \<Rightarrow> check_loop cur ys ch' m')"
  by (induction xs arbitrary: ch m) (auto split: prod.splits option.splits)

section \<open>The classifier\<close>

text \<open>
  C1. The state \<^verbatim>\<open>get_component_status\<close> reports is a function of the elapsed time
  \<open>now - last_seen\<close> and the three thresholds alone: with no recorded activity it is
  \<^verbatim>\<open>unknown\<close>; otherwise it is \<^verbatim>\<open>online\<close> below \<open>timeout_warning\<close>, \<^verbatim>\<open>warning\<close> from
  \<open>timeout_warning\<close> up to \<open>timeout_error\<close>, \<^verbatim>\<open>error\<close> from \<open>timeout_error\<close> up to
  \<open>timeout_critical\<close>, and \<^verbatim>\<open>critical\<close> from \<open>timeout_critical\<close> on. The thresholds are
  taken in order, as the five cases presuppose (they overlap otherwise). A component seen
  120 seconds ago is \<^verbatim>\<open>online\<close> under the thresholds (300, 600, 1800).
\<close>

theorem get_component_status_classifies:
  assumes "TIMEOUT_WARNING cfg \<le> TIMEOUT_ERROR cfg"
    and "TIMEOUT_ERROR cfg \<le> TIMEOUT_CRITICAL cfg"
  shows "(component_last_activity sm c = None \<longrightarrow>
            status (get_component_status cfg now sm c) = ''unknown'')
       \<and> (\<forall>la. component_last_activity sm c = Some la \<longrightarrow>
            (now - la < real_of_int (TIMEOUT_WARNING cfg) \<longrightarrow>
               status (get_component_status cfg now sm c) = ''online'')
          \<and> (real_of_int (TIMEOUT_WARNING cfg) \<le> now - la
               \<and> now - la < real_of_int (TIMEOUT_ERROR cfg) \<longrightarrow>
               status (get_component_status cfg now sm c) = ''warning'')
          \<and> (real_of_int (TIMEOUT_ERROR cfg) \<le> now - la
               \<and> now - la < real_of_int (TIMEOUT_CRITICAL cfg) \<longrightarrow>
               status (get_component_status cfg now sm c) = ''error'')
          \<and> (real_of_int (TIMEOUT_CRITICAL cfg) \<le> now - la \<longrightarrow>
               status (get_component_status cfg now sm c) = ''critical''))
       \<and> status (get_component_status default_config (t + 120)
            (record_component_activity t c empty_status_module) c) = ''online''"
  using assms
  by (auto simp: get_component_status_def record_component_activity_def default_config_def
        empty_status_module_def connection_state_defs Let_def)

text \<open>The default thresholds are in order; the four other states at concrete times.\<close>

theorem get_component_status_classifies_witness:
  "TIMEOUT_WARNING default_config \<le> TIMEOUT_ERROR default_config
   \<and> TIMEOUT_ERROR default_config \<le> TIMEOUT_CRITICAL default_config
   \<and> status (get_component_status default_config 1000
     (record_component_activity 0 ''main_hub'' empty_status_module) ''main_hub'') = ''error''
   \<and> status (get_component_status default_config 400
     (record_component_activity 0 ''main_hub'' empty_status_module) ''main_hub'') = ''warning''
   \<and> status (get_component_status default_config 2000
     (record_component_activity 0 ''main_hub'' empty_status_module) ''main_hub'') = ''critical''
   \<and> status (get_component_status default_config 2000 empty_status_module ''main_hub'')
       = ''unknown''"
proof -
  have o: "TIMEOUT_WARNING default_config \<le> TIMEOUT_ERROR default_config"
    "TIMEOUT_ERROR default_config \<le> TIMEOUT_CRITICAL default_config"
    by (simp_all add: default_config_def)
  have la: "component_last_activity
      (record_component_activity 0 ''main_hub'' empty_status_module) ''main_hub'' = Some 0"
    by (simp add: record_component_activity_def)
  have no: "component_last_activity empty_status_module ''main_hub'' = None"
    by (simp add: empty_status_module_def)
  show ?thesis
    using get_component_status_classifies [OF o, of
        "record_component_activity 0 ''main_hub'' empty_status_module" "''main_hub''" 1000]
      get_component_status_classifies [OF o, of
        "record_component_activity 0 ''main_hub'' empty_status_module" "''main_hub''" 400]
      get_component_status_classifies [OF o, of
        "record_component_activity 0 ''main_hub'' empty_status_module" "''main_hub''" 2000]
      get_component_status_classifies [OF o, of empty_status_module "''main_hub''" 2000]
      la no
    by (simp add: default_config_def)
qed

section \<open>The tick and the activity ledger\<close>

text \<open>
  C2 asks that every tick reclassify every registered component from the last-seen time
  the ledger records. The tick does not read the ledger: it takes the dictionary returned by
  \<^verbatim>\<open>get_connection_status()\<close>, a function \<^verbatim>\<open>connection_status.py\<close> does not define, and
  copies the \<^verbatim>\<open>state\<close> it finds there for the ids that occur in it. With \<^verbatim>\<open>main_hub\<close>
  last seen 1000 seconds ago the classifier says \<^verbatim>\<open>error\<close>, while a tick that is handed
  an empty dictionary completes, leaves the cached state at \<^verbatim>\<open>unknown\<close> and records no
  event; and so does a tick that is handed the classifier's own report, which carries the
  state under the key \<^verbatim>\<open>status\<close>.
\<close>

theorem tick_ignores_activity_ledger:
  "status (get_component_status default_config 1000
      (record_component_activity 0 ''main_hub'' empty_status_module) ''main_hub'') = ''error''
   \<and> fst (check_all_components (PDict []) late_monitor) = None
   \<and> state_of ''main_hub'' (snd (check_all_components (PDict []) late_monitor))
       = Some (PStr ''unknown'')
   \<and> event_history (snd (check_all_components (PDict []) late_monitor)) = []
   \<and> state_of ''main_hub'' (snd (check_all_components classifier_report late_monitor))
       = Some (PStr ''unknown'')
   \<and> event_history (snd (check_all_components classifier_report late_monitor)) = []"
  unfolding classifier_report_def by code_simp

section \<open>Configuration\<close>

text \<open>
  C3 as amended. \<^verbatim>\<open>_load_configuration\<close> copies the three thresholds from the
  configuration as they are and compares nothing: whatever their order, construction
  succeeds with the thresholds stored, and \<^verbatim>\<open>start()\<close> on the new monitor returns true and
  makes it active.
\<close>

theorem load_configuration_checks_nothing:
  "timeout_warning (ConnectionMonitor_init cfg clk parse) = Some (TIMEOUT_WARNING cfg)
   \<and> timeout_error (ConnectionMonitor_init cfg clk parse) = Some (TIMEOUT_ERROR cfg)
   \<and> timeout_critical (ConnectionMonitor_init cfg clk parse) = Some (TIMEOUT_CRITICAL cfg)
   \<and> fst (start (ConnectionMonitor_init cfg clk parse))
   \<and> m_state (snd (start (ConnectionMonitor_init cfg clk parse))) = MONITOR_STATE_ACTIVE"
  by (simp add: start_def ConnectionMonitor_init_def initialize_registry_def
        load_configuration_def register_component_def)

text \<open>
  The claim as stated fails: with thresholds (600, 300, 100), where warning \<open>\<ge>\<close> error
  \<open>\<ge>\<close> critical, the monitor is constructed and started.
\<close>

theorem unordered_thresholds_start:
  "TIMEOUT_WARNING unordered_config \<ge> TIMEOUT_ERROR unordered_config
   \<and> TIMEOUT_ERROR unordered_config \<ge> TIMEOUT_CRITICAL unordered_config
   \<and> timeout_warning (ConnectionMonitor_init unordered_config (\<lambda>n. real n) (\<lambda>v. None)) = Some 600
   \<and> timeout_error (ConnectionMonitor_init unordered_config (\<lambda>n. real n) (\<lambda>v. None)) = Some 300
   \<and> timeout_critical (ConnectionMonitor_init unordered_config (\<lambda>n. real n) (\<lambda>v. None)) = Some 100
   \<and> fst (start (ConnectionMonitor_init unordered_config (\<lambda>n. real n) (\<lambda>v. None)))
   \<and> m_state (snd (start (ConnectionMonitor_init unordered_config (\<lambda>n. real n) (\<lambda>v. None))))
       = MONITOR_STATE_ACTIVE"
  by (simp add: start_def ConnectionMonitor_init_def initialize_registry_def
        load_configuration_def register_component_def unordered_config_def)

section \<open>Exceptions in the tick\<close>

text \<open>
  C4 as amended. An exception raised by the step of component A ends the tick there:
  \<^verbatim>\<open>_check_all_components\<close> raises it, every component that is neither A nor before A in
  registry order keeps the registry entry it had before the tick, and the monitoring loop,
  which catches the exception, goes on with the monitor as the tick left it.
\<close>

theorem exception_ends_the_tick:
  assumes "map fst (component_registry m) = pre @ a # post"
    and "check_loop cur pre False (snd (datetime_now m)) = (None, ch1, m1)"
    and "fst (check_component cur a m1) = Some e"
  shows "fst (check_all_components cur m) = Some e
       \<and> (\<forall>b. b \<notin> set pre \<and> b \<noteq> a \<longrightarrow>
            map_of (component_registry (snd (check_all_components cur m))) b
              = map_of (component_registry m) b)
       \<and> (m_state m = MONITOR_STATE_ACTIVE \<longrightarrow>
            monitoring_loop_iteration cur m = snd (check_all_components cur m))"
proof -
  obtain ch2 m2 where s: "check_component cur a m1 = (Some e, ch2, m2)"
    using assms(3) by (cases "check_component cur a m1") auto
  have loop: "check_loop cur (map fst (component_registry m)) False (snd (datetime_now m))
                = (Some e, ch1 \<or> ch2, m2)"
    using assms(1,2) s by (simp add: check_loop_append)
  then have res: "check_all_components cur m = (Some e, m2)"
    by (simp add: check_all_components_def datetime_now_def)
  have "map_of (component_registry m2) b = map_of (component_registry m) b"
    if "b \<notin> set pre" "b \<noteq> a" for b
  proof -
    have "map_of (component_registry m2) b = map_of (component_registry m1) b"
      using check_component_frame(6) [OF s] that by simp
    also have "\<dots> = map_of (component_registry (snd (datetime_now m))) b"
      using check_loop_frame [OF assms(2), of b] that by simp
    finally show ?thesis by simp
  qed
  with res show ?thesis by (simp add: monitoring_loop_iteration_def)
qed

text \<open>
  The first component of the registry is handed \<^verbatim>\<open>None\<close> as its status data: its step raises
  \<^verbatim>\<open>AttributeError\<close> and \<^verbatim>\<open>plant_node\<close> keeps its entry.
\<close>

theorem exception_ends_the_tick_witness:
  "map fst (component_registry initial_monitor)
     = [] @ ''main_hub'' #
         [''plant_node'', ''camera'', ''moisture'', ''temperature'', ''light'', ''ec'', ''ph'',
          ''uv'']
   \<and> check_loop hub_malformed [] False (snd (datetime_now initial_monitor))
       = (None, False, snd (datetime_now initial_monitor))
   \<and> fst (check_component hub_malformed ''main_hub'' (snd (datetime_now initial_monitor)))
       = Some AttributeError
   \<and> fst (check_all_components hub_malformed initial_monitor) = Some AttributeError
   \<and> map_of (component_registry (snd (check_all_components hub_malformed initial_monitor)))
        ''plant_node''
       = map_of (component_registry initial_monitor) ''plant_node''"
proof -
  have keys: "map fst (component_registry initial_monitor)
     = [] @ ''main_hub'' #
         [''plant_node'', ''camera'', ''moisture'', ''temperature'', ''light'', ''ec'', ''ph'',
          ''uv'']"
    by code_simp
  have before: "check_loop hub_malformed [] False (snd (datetime_now initial_monitor))
       = (None, False, snd (datetime_now initial_monitor))"
    by simp
  have raises: "fst (check_component hub_malformed ''main_hub''
                  (snd (datetime_now initial_monitor))) = Some AttributeError"
    by code_simp
  from exception_ends_the_tick [OF keys before raises] keys before raises
  show ?thesis by simp
qed

text \<open>
  The claim as stated fails: in that tick \<^verbatim>\<open>plant_node\<close> is reported \<^verbatim>\<open>online\<close> and stays
  \<^verbatim>\<open>unknown\<close>, whereas the same report without the malformed entry for \<^verbatim>\<open>main_hub\<close>
  makes it \<^verbatim>\<open>online\<close>.
\<close>

theorem exception_skips_later_components:
  "fst (check_component hub_malformed ''main_hub'' (snd (datetime_now initial_monitor)))
     = Some AttributeError
   \<and> fst (check_all_components hub_malformed initial_monitor) = Some AttributeError
   \<and> state_of ''plant_node'' (snd (check_all_components hub_malformed initial_monitor))
       = Some (PStr ''unknown'')
   \<and> state_of ''plant_node'' (snd (check_all_components plant_online initial_monitor))
       = Some (PStr ''online'')"
  by code_simp

section \<open>Notifications\<close>

text \<open>
  C5. The notification policy runs only when the tick sees the state of a component change.
  For a component whose cached state is \<open>s\<close> (\<^verbatim>\<open>warning\<close>, say) after each of \<open>N\<close>
  consecutive iterations of the monitoring loop, those iterations send at most one
  notification about it, whatever \<open>N\<close> is; and none at all when its state was \<open>s\<close> already
  before the first of them. The registry is a dictionary, so its keys are distinct.
\<close>

theorem steady_state_is_not_notified:
  assumes "distinct (map fst (component_registry m))"
    and "\<forall>k. 0 < k \<and> k \<le> length curs \<longrightarrow>
           state_of cid (monitoring_loop (take k curs) m) = Some s"
  shows "length (notifications_about cid (monitoring_loop curs m))
           \<le> Suc (length (notifications_about cid m))
       \<and> (state_of cid m = Some s \<longrightarrow>
            notifications_about cid (monitoring_loop curs m) = notifications_about cid m)"
  using assms
proof (induction curs arbitrary: m)
  case Nil
  then show ?case by simp
next
  case (Cons cur rest)
  show ?case
  proof (cases "m_state m = MONITOR_STATE_STOPPED")
    case True
    then show ?thesis by simp
  next
    case False
    define m1 where "m1 = monitoring_loop_iteration cur m"
    have run: "monitoring_loop (cur # rest) m = monitoring_loop rest m1"
      using False by (simp add: m1_def)
    have "state_of cid (monitoring_loop (take (Suc 0) (cur # rest)) m) = Some s"
      using Cons.prems(2) by (metis length_Cons zero_less_Suc Suc_le_mono zero_le)
    then have s1: "state_of cid m1 = Some s"
      using False by (simp add: m1_def)
    have later: "\<forall>k. 0 < k \<and> k \<le> length rest \<longrightarrow>
                   state_of cid (monitoring_loop (take k rest) m1) = Some s"
    proof (intro allI impI)
      fix k assume k: "0 < k \<and> k \<le> length rest"
      then have "state_of cid (monitoring_loop (take (Suc k) (cur # rest)) m) = Some s"
        using Cons.prems(2) by (metis length_Cons zero_less_Suc Suc_le_mono)
      then show "state_of cid (monitoring_loop (take k rest) m1) = Some s"
        using False by (simp add: m1_def)
    qed
    note it1 = iteration_notifies_on_change(1) [OF Cons.prems(1), where cur = cur,
      folded m1_def]
    note it2 = iteration_notifies_on_change(2) [OF Cons.prems(1), where cur = cur and cid = cid,
      folded m1_def]
    note it3 = iteration_notifies_on_change(3) [OF Cons.prems(1), where cur = cur and cid = cid,
      folded m1_def]
    from Cons.IH [OF it1 later] s1
    have rest_same: "notifications_about cid (monitoring_loop rest m1) = notifications_about cid m1"
      by simp
    show ?thesis
      using rest_same run it2 it3 s1 by auto
  qed
qed

text \<open>
  \<^verbatim>\<open>main_hub\<close> went to \<^verbatim>\<open>warning\<close> in a first tick, which notified once; two more ticks
  that find it in \<^verbatim>\<open>warning\<close> add nothing.
\<close>

theorem steady_state_is_not_notified_witness:
  "distinct (map fst (component_registry warned_monitor))
   \<and> state_of ''main_hub'' (monitoring_loop (take 1 [hub_warning, hub_warning])
        warned_monitor) = Some (PStr ''warning'')
   \<and> state_of ''main_hub'' (monitoring_loop (take 2 [hub_warning, hub_warning])
        warned_monitor) = Some (PStr ''warning'')
   \<and> state_of ''main_hub'' warned_monitor = Some (PStr ''warning'')
   \<and> notifications_about ''main_hub''
        (monitoring_loop [hub_warning, hub_warning] warned_monitor)
       = notifications_about ''main_hub'' warned_monitor
   \<and> length (notifications_about ''main_hub'' warned_monitor) = 1"
proof -
  have d: "distinct (map fst (component_registry warned_monitor))"
    by code_simp
  have a1: "state_of ''main_hub'' (monitoring_loop (take 1 [hub_warning, hub_warning])
              warned_monitor) = Some (PStr ''warning'')"
    by code_simp
  have a2: "state_of ''main_hub'' (monitoring_loop (take 2 [hub_warning, hub_warning])
              warned_monitor) = Some (PStr ''warning'')"
    by code_simp
  have stays: "\<forall>k. 0 < k \<and> k \<le> length [hub_warning, hub_warning] \<longrightarrow>
          state_of ''main_hub'' (monitoring_loop (take k [hub_warning, hub_warning])
             warned_monitor) = Some (PStr ''warning'')"
  proof (intro allI impI)
    fix k :: nat assume "0 < k \<and> k \<le> length [hub_warning, hub_warning]"
    then have "k = 1 \<or> k = 2" by auto
    with a1 a2 show "state_of ''main_hub'' (monitoring_loop (take k [hub_warning, hub_warning])
             warned_monitor) = Some (PStr ''warning'')"
      by auto
  qed
  have s0: "state_of ''main_hub'' warned_monitor = Some (PStr ''warning'')"
    by code_simp
  have one: "length (notifications_about ''main_hub'' warned_monitor) = 1"
    by code_simp
  from steady_state_is_not_notified [OF d stays] s0
  have same: "notifications_about ''main_hub''
        (monitoring_loop [hub_warning, hub_warning] warned_monitor)
       = notifications_about ''main_hub'' warned_monitor"
    by blast
  from d a1 a2 s0 same one show ?thesis by blast
qed

text \<open>
  C6. The cooldown is kept per component, as the time of its last notification, and is
  consulted before severity is looked at: a transition of a registered component within
  \<open>notification_cooldown\<close> seconds of its last notification changes nothing but the clock
  (nothing is sent and nothing is kept for later); the last-notification time of another
  component A has no influence on what is sent for B; and a transition of B that the
  policy notifies is sent whenever B itself is not in cooldown.
\<close>

theorem check_notification_needed_cooldown:
  "(map_of (component_registry m) b = Some c \<and> last_notification_time m b = Some t
      \<and> clock m (reads m) - t < real_of_int (notification_cooldown m) \<longrightarrow>
      check_notification_needed b p n m = (None, m\<lparr>reads := Suc (reads m)\<rparr>))
   \<and> (a \<noteq> b \<longrightarrow>
      sent_notifications (snd (check_notification_needed b p n
         (m\<lparr>last_notification_time := (last_notification_time m)(a := x)\<rparr>)))
        = sent_notifications (snd (check_notification_needed b p n m)))
   \<and> (map_of (component_registry m) b = Some c
      \<and> notification_for c p n = Some (severity, msg)
      \<and> (\<forall>t. last_notification_time m b = Some t \<longrightarrow>
             \<not> clock m (reads m) - t < real_of_int (notification_cooldown m)) \<longrightarrow>
      sent_notifications (snd (check_notification_needed b p n m))
        = sent_notifications m @
            [\<lparr>n_component_id = b, n_severity = severity, n_message = msg\<rparr>]
      \<and> last_notification_time (snd (check_notification_needed b p n m)) b
        = Some (clock m (reads m)))"
  by (auto simp: check_notification_needed_def split_def Let_def split: option.splits)

text \<open>
  \<^verbatim>\<open>main_hub\<close> was notified at time 0 and the clock still reads 0: its transition is
  dropped, while the transition of \<^verbatim>\<open>plant_node\<close> to \<^verbatim>\<open>error\<close> is sent.
\<close>

theorem check_notification_needed_cooldown_witness:
  "map_of (component_registry hub_in_cooldown) ''main_hub''
     = Some (the (map_of (component_registry hub_in_cooldown) ''main_hub''))
   \<and> last_notification_time hub_in_cooldown ''main_hub'' = Some 0
   \<and> clock hub_in_cooldown (reads hub_in_cooldown) - 0
       < real_of_int (notification_cooldown hub_in_cooldown)
   \<and> check_notification_needed ''main_hub'' (PStr ''warning'') (PStr ''error'') hub_in_cooldown
       = (None, hub_in_cooldown\<lparr>reads := Suc (reads hub_in_cooldown)\<rparr>)
   \<and> map_of (component_registry hub_in_cooldown) ''plant_node''
     = Some (the (map_of (component_registry hub_in_cooldown) ''plant_node''))
   \<and> notification_for (the (map_of (component_registry hub_in_cooldown) ''plant_node''))
        (PStr ''unknown'') (PStr ''error'')
       = Some (''error'', Has_disconnected ''Plant Node'' (PStr ''Not yet connected''))
   \<and> last_notification_time hub_in_cooldown ''plant_node'' = None
   \<and> sent_notifications (snd (check_notification_needed ''plant_node'' (PStr ''unknown'')
         (PStr ''error'') hub_in_cooldown))
       = [\<lparr>n_component_id = ''plant_node'', n_severity = ''error'',
           n_message = Has_disconnected ''Plant Node'' (PStr ''Not yet connected'')\<rparr>]"
proof -
  have hub: "map_of (component_registry hub_in_cooldown) ''main_hub''
     = Some (the (map_of (component_registry hub_in_cooldown) ''main_hub''))"
    by code_simp
  have last: "last_notification_time hub_in_cooldown ''main_hub'' = Some 0"
    by (simp add: hub_in_cooldown_def)
  have cool: "clock hub_in_cooldown (reads hub_in_cooldown) - 0
       < real_of_int (notification_cooldown hub_in_cooldown)"
    by (simp add: hub_in_cooldown_def initial_monitor_def init_defs default_config_def)
  have plant: "map_of (component_registry hub_in_cooldown) ''plant_node''
     = Some (the (map_of (component_registry hub_in_cooldown) ''plant_node''))"
    by code_simp
  have qualifies: "notification_for (the (map_of (component_registry hub_in_cooldown)
        ''plant_node'')) (PStr ''unknown'') (PStr ''error'')
       = Some (''error'', Has_disconnected ''Plant Node'' (PStr ''Not yet connected''))"
    by code_simp
  have free: "\<forall>t. last_notification_time hub_in_cooldown ''plant_node'' = Some t \<longrightarrow>
          \<not> clock hub_in_cooldown (reads hub_in_cooldown) - t
              < real_of_int (notification_cooldown hub_in_cooldown)"
    by (simp add: hub_in_cooldown_def)
  have none_sent: "sent_notifications hub_in_cooldown = []"
    by (simp add: hub_in_cooldown_def initial_monitor_def init_defs)
  from check_notification_needed_cooldown [of hub_in_cooldown "''main_hub''"
      "the (map_of (component_registry hub_in_cooldown) ''main_hub'')" 0
      "PStr ''warning''" "PStr ''error''"]
    hub last cool
  have dropped: "check_notification_needed ''main_hub'' (PStr ''warning'') (PStr ''error'')
       hub_in_cooldown = (None, hub_in_cooldown\<lparr>reads := Suc (reads hub_in_cooldown)\<rparr>)"
    by blast
  from check_notification_needed_cooldown [of hub_in_cooldown "''plant_node''"
      "the (map_of (component_registry hub_in_cooldown) ''plant_node'')" _
      "PStr ''unknown''" "PStr ''error''" _ _ "''error''"
      "Has_disconnected ''Plant Node'' (PStr ''Not yet connected'')"]
    plant qualifies free none_sent
  have sent: "sent_notifications (snd (check_notification_needed ''plant_node''
       (PStr ''unknown'') (PStr ''error'') hub_in_cooldown))
       = [\<lparr>n_component_id = ''plant_node'', n_severity = ''error'',
           n_message = Has_disconnected ''Plant Node'' (PStr ''Not yet connected'')\<rparr>]"
    by simp
  have never: "last_notification_time hub_in_cooldown ''plant_node'' = None"
    by (simp add: hub_in_cooldown_def)
  from hub last cool dropped plant qualifies never sent show ?thesis by blast
qed

section \<open>Health summary\<close>

text \<open>
  C7. \<^verbatim>\<open>get_system_health_summary\<close> reports \<^verbatim>\<open>critical\<close> if some component is in the
  critical state or some critical-flagged component is in state error or critical;
  otherwise \<^verbatim>\<open>error\<close> if some component is in the error state; otherwise \<^verbatim>\<open>warning\<close> if
  some component is in the warning state; otherwise \<^verbatim>\<open>unknown\<close> if every component is
  unknown; otherwise \<^verbatim>\<open>healthy\<close>. Its \<^verbatim>\<open>average_uptime\<close> is the mean of the uptime
  percentages that are positive (0 when there is none), and \<^verbatim>\<open>critical_disconnected\<close>
  counts the critical-flagged components in state error or critical: with two of them the
  summary is \<^verbatim>\<open>critical\<close> with \<^verbatim>\<open>critical_disconnected = 2\<close>.
\<close>

theorem health_summary_overall:
  "overall_health (get_system_health_summary now m) =
     (if \<exists>c\<in>set (map snd (component_registry m)).
            state c = PStr ''critical''
            \<or> critical c \<and> (state c = PStr ''error'' \<or> state c = PStr ''critical'')
      then ''critical''
      else if \<exists>c\<in>set (map snd (component_registry m)). state c = PStr ''error''
      then ''error''
      else if \<exists>c\<in>set (map snd (component_registry m)). state c = PStr ''warning''
      then ''warning''
      else if \<forall>c\<in>set (map snd (component_registry m)). state c = PStr ''unknown''
      then ''unknown''
      else ''healthy'')
   \<and> average_uptime (get_system_health_summary now m) =
     (if filter (\<lambda>c. uptime_percentage c > 0) (map snd (component_registry m)) = [] then 0
      else sum_list (map uptime_percentage
             (filter (\<lambda>c. uptime_percentage c > 0) (map snd (component_registry m))))
           / real (length (filter (\<lambda>c. uptime_percentage c > 0)
                     (map snd (component_registry m)))))
   \<and> critical_disconnected (get_system_health_summary now m) =
       length (filter (\<lambda>c. critical c
                 \<and> (state c = PStr ''error'' \<or> state c = PStr ''critical''))
                (map snd (component_registry m)))
   \<and> (length (filter (\<lambda>c. critical c
                 \<and> (state c = PStr ''error'' \<or> state c = PStr ''critical''))
                (map snd (component_registry m))) = 2 \<longrightarrow>
        overall_health (get_system_health_summary now m) = ''critical''
        \<and> critical_disconnected (get_system_health_summary now m) = 2)"
proof -
  let ?cs = "map snd (component_registry m)"
  have dis: "length (filter (\<lambda>c. state c = PStr CONNECTION_STATE_ERROR
                \<or> state c = PStr CONNECTION_STATE_CRITICAL) (filter critical ?cs))
           = length (filter (\<lambda>c. critical c
                 \<and> (state c = PStr ''error'' \<or> state c = PStr ''critical'')) ?cs)"
    by (simp add: connection_state_defs conj_commute)
  have health: "overall_health (get_system_health_summary now m) =
     (if 0 < length (filter (\<lambda>c. critical c
                 \<and> (state c = PStr ''error'' \<or> state c = PStr ''critical'')) ?cs)
         \<or> 0 < length (filter (\<lambda>c. state c = PStr ''critical'') ?cs) then ''critical''
      else if 0 < length (filter (\<lambda>c. state c = PStr ''error'') ?cs) then ''error''
      else if 0 < length (filter (\<lambda>c. state c = PStr ''warning'') ?cs) then ''warning''
      else if length (filter (\<lambda>c. state c = PStr ''unknown'') ?cs) = length ?cs
      then ''unknown'' else ''healthy'')"
    unfolding get_system_health_summary_def Let_def dis
    by (simp add: connection_state_defs)
  have avg: "average_uptime (get_system_health_summary now m) =
     (if filter (\<lambda>c. uptime_percentage c > 0) ?cs = [] then 0
      else sum_list (map uptime_percentage (filter (\<lambda>c. uptime_percentage c > 0) ?cs))
           / real (length (filter (\<lambda>c. uptime_percentage c > 0) ?cs)))"
    by (simp add: get_system_health_summary_def Let_def filter_map comp_def)
  have cd: "critical_disconnected (get_system_health_summary now m) =
       length (filter (\<lambda>c. critical c
                 \<and> (state c = PStr ''error'' \<or> state c = PStr ''critical'')) ?cs)"
    unfolding get_system_health_summary_def Let_def dis by simp
  have h1: "overall_health (get_system_health_summary now m) =
     (if \<exists>c\<in>set ?cs. state c = PStr ''critical''
            \<or> critical c \<and> (state c = PStr ''error'' \<or> state c = PStr ''critical'')
      then ''critical''
      else if \<exists>c\<in>set ?cs. state c = PStr ''error'' then ''error''
      else if \<exists>c\<in>set ?cs. state c = PStr ''warning'' then ''warning''
      else if \<forall>c\<in>set ?cs. state c = PStr ''unknown'' then ''unknown''
      else ''healthy'')"
    unfolding health filter_nonempty_iff filter_all_iff by auto
  have h2: "overall_health (get_system_health_summary now m) = ''critical''"
    if "length (filter (\<lambda>c. critical c
                 \<and> (state c = PStr ''error'' \<or> state c = PStr ''critical'')) ?cs) = 2"
    using that unfolding health by simp
  show ?thesis using h1 avg cd h2 by simp
qed

text \<open>After a tick that found \<^verbatim>\<open>main_hub\<close> critical and \<^verbatim>\<open>plant_node\<close> in error.\<close>

theorem health_summary_overall_witness:
  "length (filter (\<lambda>c. critical c
             \<and> (state c = PStr ''error'' \<or> state c = PStr ''critical''))
            (map snd (component_registry two_critical_down))) = 2
   \<and> overall_health (get_system_health_summary 0 two_critical_down) = ''critical''
   \<and> critical_disconnected (get_system_health_summary 0 two_critical_down) = 2"
proof -
  have two: "length (filter (\<lambda>c. critical c
             \<and> (state c = PStr ''error'' \<or> state c = PStr ''critical''))
            (map snd (component_registry two_critical_down))) = 2"
    by code_simp
  from health_summary_overall [of 0 two_critical_down] two show ?thesis by blast
qed

section \<open>Uptime\<close>

text \<open>
  C8 as amended. Provided the readings of the clock never decrease, every
  \<^verbatim>\<open>uptime_percentage\<close> lies between
  0 and 100 after construction and after every operation: the invariant \<open>uptime_inv\<close>
  (each percentage is in range and no history entry is stamped later than the next clock
  reading) holds initially and is kept by a tick, by any run of the monitoring loop and by
  the lifecycle operations. The percentage is a quotient only where the total time is
  positive. Where a component has no history entry inside the last 24 hours,
  \<^verbatim>\<open>_calculate_metrics\<close> leaves its percentage as it was, and the loop of the tick before it
  never writes the percentage.
\<close>

theorem uptime_percentage_stays_in_range:
  "uptime_inv (ConnectionMonitor_init cfg clk parse)
   \<and> (mono (clock m) \<and> uptime_inv m \<longrightarrow>
        uptime_inv (snd (check_all_components cur m))
        \<and> uptime_inv (monitoring_loop curs m)
        \<and> uptime_inv (snd (start m)) \<and> uptime_inv (snd (stop m))
        \<and> uptime_inv (snd (pause m)) \<and> uptime_inv (snd (resume m)))
   \<and> (uptime_inv m \<longrightarrow>
        (\<forall>b c. map_of (component_registry m) b = Some c \<longrightarrow>
           0 \<le> uptime_percentage c \<and> uptime_percentage c \<le> 100))
   \<and> (mono clk \<longrightarrow>
        (\<forall>b c. map_of (component_registry (monitoring_loop curs
                   (snd (start (ConnectionMonitor_init cfg clk parse))))) b = Some c \<longrightarrow>
           0 \<le> uptime_percentage c \<and> uptime_percentage c \<le> 100))
   \<and> (map_of (component_registry m) cid = Some c
        \<and> filter (\<lambda>h. h_timestamp h > clock m (reads m) - 24 * 3600)
             (connection_history c) = [] \<longrightarrow>
        field_of uptime_percentage cid (calculate_metrics m) = Some (uptime_percentage c))
   \<and> field_of uptime_percentage cid (snd (snd (check_loop cur ks ch m)))
       = field_of uptime_percentage cid m"
proof -
  have init: "uptime_inv (ConnectionMonitor_init cfg clk parse)" by (rule init_inv)
  have range: "0 \<le> uptime_percentage c \<and> uptime_percentage c \<le> 100"
    if "uptime_inv m" "map_of (component_registry m) b = Some c" for m b c
    using that by (auto simp: uptime_inv_iff uptime_ok_def)
  have reach: "0 \<le> uptime_percentage c \<and> uptime_percentage c \<le> 100"
    if "mono clk"
      "map_of (component_registry (monitoring_loop curs
         (snd (start (ConnectionMonitor_init cfg clk parse))))) b = Some c" for b c
  proof -
    have "clock (snd (start (ConnectionMonitor_init cfg clk parse))) = clk"
      by (simp add: start_def init_defs)
    with that(1) have "mono (clock (snd (start (ConnectionMonitor_init cfg clk parse))))"
      by simp
    from monitoring_loop_inv [OF this lifecycle_inv(1) [OF init]] that(2)
    show ?thesis by (rule range)
  qed
  have keep: "field_of uptime_percentage cid (calculate_metrics m) = Some (uptime_percentage c)"
    if "map_of (component_registry m) cid = Some c"
      "filter (\<lambda>h. h_timestamp h > clock m (reads m) - 24 * 3600) (connection_history c) = []"
    using that
    by (simp add: field_of_def calculate_metrics_def datetime_now_def map_of_map
          component_metrics_keeps_uptime)
  have loop: "field_of uptime_percentage cid (snd (snd (check_loop cur ks ch m)))
                = field_of uptime_percentage cid m"
    using check_loop_frame [of cur ks ch m "fst (check_loop cur ks ch m)"
            "fst (snd (check_loop cur ks ch m))" "snd (snd (check_loop cur ks ch m))" cid]
    by simp
  have step: "mono (clock m) \<and> uptime_inv m \<longrightarrow>
        uptime_inv (snd (check_all_components cur m))
        \<and> uptime_inv (monitoring_loop curs m)
        \<and> uptime_inv (snd (start m)) \<and> uptime_inv (snd (stop m))
        \<and> uptime_inv (snd (pause m)) \<and> uptime_inv (snd (resume m))"
    by (simp add: check_all_components_inv monitoring_loop_inv lifecycle_inv)
  have r2: "uptime_inv m \<longrightarrow>
        (\<forall>b c. map_of (component_registry m) b = Some c \<longrightarrow>
           0 \<le> uptime_percentage c \<and> uptime_percentage c \<le> 100)"
    using range [of m] by blast
  have r3: "mono clk \<longrightarrow>
        (\<forall>b c. map_of (component_registry (monitoring_loop curs
                   (snd (start (ConnectionMonitor_init cfg clk parse))))) b = Some c \<longrightarrow>
           0 \<le> uptime_percentage c \<and> uptime_percentage c \<le> 100)"
    using reach by blast
  have k: "map_of (component_registry m) cid = Some c
        \<and> filter (\<lambda>h. h_timestamp h > clock m (reads m) - 24 * 3600)
             (connection_history c) = [] \<longrightarrow>
        field_of uptime_percentage cid (calculate_metrics m) = Some (uptime_percentage c)"
    using keep by blast
  show ?thesis
    apply (intro conjI)
         apply (fact init)
        apply (fact step)
       apply (fact r2)
      apply (fact r3)
     apply (fact k)
    apply (fact loop)
    done
qed

text \<open>
  \<^verbatim>\<open>main_hub\<close> came online and reached 100 percent; on a tick days later, with its only
  history entry out of the window, the percentage is still 100.
\<close>

theorem uptime_percentage_stays_in_range_witness:
  "mono (clock initial_monitor) \<and> uptime_inv initial_monitor
   \<and> uptime_inv (snd (check_all_components hub_online initial_monitor))
   \<and> map_of (component_registry days_later) ''main_hub''
       = Some (the (map_of (component_registry days_later) ''main_hub''))
   \<and> filter (\<lambda>h. h_timestamp h > clock days_later (reads days_later) - 24 * 3600)
        (connection_history (the (map_of (component_registry days_later) ''main_hub''))) = []
   \<and> connection_history (the (map_of (component_registry days_later) ''main_hub'')) \<noteq> []
   \<and> uptime_percentage (the (map_of (component_registry days_later) ''main_hub'')) = 100
   \<and> field_of uptime_percentage ''main_hub'' (calculate_metrics days_later) = Some 100"
proof -
  have m: "mono (clock initial_monitor)"
    by (simp add: initial_monitor_def init_defs mono_def)
  have i: "uptime_inv initial_monitor"
    by code_simp
  have c: "map_of (component_registry days_later) ''main_hub''
       = Some (the (map_of (component_registry days_later) ''main_hub''))"
    by code_simp
  have old: "filter (\<lambda>h. h_timestamp h > clock days_later (reads days_later) - 24 * 3600)
        (connection_history (the (map_of (component_registry days_later) ''main_hub''))) = []"
    by code_simp
  have some: "connection_history (the (map_of (component_registry days_later) ''main_hub''))
                \<noteq> []"
    by code_simp
  have full: "uptime_percentage (the (map_of (component_registry days_later) ''main_hub''))
                = 100"
    by code_simp
  from uptime_percentage_stays_in_range [of default_config "\<lambda>n. real n" "\<lambda>v. None"
      initial_monitor hub_online "[]"] m i
  have step: "uptime_inv (snd (check_all_components hub_online initial_monitor))"
    by blast
  from uptime_percentage_stays_in_range [of default_config "\<lambda>n. real n" "\<lambda>v. None"
      days_later _ _ "''main_hub''" "the (map_of (component_registry days_later) ''main_hub'')"]
    c old full
  have kept: "field_of uptime_percentage ''main_hub'' (calculate_metrics days_later) = Some 100"
    by simp
  from m i step c old some full kept show ?thesis by blast
qed

text \<open>
  The claim as stated fails, for it sets no condition on the clock, and \<^verbatim>\<open>datetime.now()\<close>
  is the local wall clock. \<^verbatim>\<open>main_hub\<close> comes online at time 0 and goes to warning at
  3600; the clock is then set back, and \<^verbatim>\<open>_calculate_metrics\<close> of that tick reads 1800.
  The online entry lasts 3600 seconds, the warning entry lasts \<open>1800 - 3600\<close>, the total
  time is 1800 and the percentage is 200.
\<close>

theorem uptime_after_clock_step_back:
  "stepping_back_clock 7 = 3600 \<and> stepping_back_clock 10 = 1800
   \<and> map (\<lambda>h. (h_state h, h_timestamp h))
         (connection_history (the (map_of (component_registry after_step_back) ''main_hub'')))
       = [(PStr ''online'', 0), (PStr ''warning'', 3600)]
   \<and> field_of uptime_percentage ''main_hub'' after_step_back = Some 200
   \<and> \<not> uptime_inv after_step_back"
  by code_simp

section \<open>Lifecycle\<close>

text \<open>
  C9. \<^verbatim>\<open>start()\<close> returns true exactly from the stopped state and \<^verbatim>\<open>stop()\<close> exactly from
  a state other than stopped, so that two calls in a row return true and then false;
  \<^verbatim>\<open>pause()\<close> returns false unless the monitor is active and \<^verbatim>\<open>resume()\<close> returns false
  unless it is paused. Each of them returns a value in every state.
\<close>

theorem lifecycle_guards:
  "fst (start m) = (m_state m = MONITOR_STATE_STOPPED)
   \<and> fst (stop m) = (m_state m \<noteq> MONITOR_STATE_STOPPED)
   \<and> (m_state m \<noteq> MONITOR_STATE_ACTIVE \<longrightarrow> \<not> fst (pause m))
   \<and> (m_state m \<noteq> MONITOR_STATE_PAUSED \<longrightarrow> \<not> fst (resume m))
   \<and> (m_state m = MONITOR_STATE_STOPPED \<longrightarrow>
        fst (start m) \<and> \<not> fst (start (snd (start m))))
   \<and> (m_state m \<noteq> MONITOR_STATE_STOPPED \<longrightarrow>
        fst (stop m) \<and> \<not> fst (stop (snd (stop m))))"
  by (simp add: start_def stop_def pause_def resume_def)

text \<open>On the freshly constructed monitor, which is stopped.\<close>

theorem lifecycle_guards_witness:
  "m_state initial_monitor = MONITOR_STATE_STOPPED
   \<and> fst (start initial_monitor) \<and> \<not> fst (start (snd (start initial_monitor)))
   \<and> \<not> fst (pause initial_monitor) \<and> \<not> fst (resume initial_monitor)
   \<and> m_state (snd (start initial_monitor)) \<noteq> MONITOR_STATE_STOPPED
   \<and> fst (stop (snd (start initial_monitor)))
   \<and> \<not> fst (stop (snd (stop (snd (start initial_monitor)))))"
proof -
  have stopped: "m_state initial_monitor = MONITOR_STATE_STOPPED"
    by (simp add: initial_monitor_def init_defs)
  then have running: "m_state (snd (start initial_monitor)) \<noteq> MONITOR_STATE_STOPPED"
    by (simp add: start_def)
  from lifecycle_guards [of initial_monitor] lifecycle_guards [of "snd (start initial_monitor)"]
    stopped running
  show ?thesis by simp
qed

section \<open>Recording activity\<close>

text \<open>
  C10 asks that \<^verbatim>\<open>record_activity\<close> record a last-seen time for every registered id,
  sensors included, without raising. For a sensor the method calls
  \<^verbatim>\<open>record_component_activity("sensors", component_id)\<close>, two arguments for a function of
  one parameter. So the method raises \<^verbatim>\<open>TypeError\<close> for every registered sensor, records
  the time for every other registered id and does nothing for an unknown id: on the registry
  built by the constructor, \<^verbatim>\<open>record_activity("moisture")\<close> raises and
  \<^verbatim>\<open>record_activity("main_hub")\<close> records.
\<close>

theorem record_activity_sensor_raises:
  "record_activity m now cid sm =
     (case map_of (component_registry m) cid of
        None \<Rightarrow> Inr sm
      | Some c \<Rightarrow>
          if component_type c = ''sensor'' then Inl TypeError
          else Inr (record_component_activity now cid sm))
   \<and> record_activity (ConnectionMonitor_init cfg clk parse) now ''moisture'' sm = Inl TypeError
   \<and> record_activity (ConnectionMonitor_init cfg clk parse) now ''main_hub'' sm
       = Inr (record_component_activity now ''main_hub'' sm)"
  by (simp add: record_activity_def call_record_component_activity_def init_defs
        split: option.splits)

end
